theory Spec2Isabelle
  imports Main
begin

section \<open>Data model\<close>

text \<open>
  The sources are \<^verbatim>\<open>src/network/clients.c\<close> (the transport session) and
  \<^verbatim>\<open>check/magma/servers/smtp/smtp_check_network.c\<close> (the SMTP exchange driver).
  A C pointer is an \<open>option\<close>: \<open>None\<close> is \<^verbatim>\<open>NULL\<close>. A pointer to a
  \<^verbatim>\<open>client_t\<close> is an address into the store \<open>objs\<close> of the world; an address
  the store does not hold is freed memory. What C leaves undefined is a value of
  type \<open>fault\<close>.
\<close>

datatype fault =
    NullDeref      \<comment> \<open>a field of a \<^verbatim>\<open>NULL\<close> session is read or written\<close>
  | UseAfterFree   \<comment> \<open>a field of a freed session is read or written\<close>
  | OutOfBuffer    \<comment> \<open>a byte past the end of the read buffer is read\<close>

record ip_t =
  family :: int
  ip_data :: string

text \<open>
  \<^verbatim>\<open>client_t\<close>: the fields the two files use. \<^verbatim>\<open>client->line\<close> is a placer, a
  pointer into the read buffer and a length: \<open>line\<close> holds the bytes it covers and
  \<open>behind\<close> the bytes of the buffer that follow them, up to the end of the buffer.
  Byte \<open>i\<close> at the placer's pointer is byte \<open>i\<close> of \<open>line @ behind\<close>.
\<close>

record client_t =
  sockd :: int
  tls :: "nat option"
  ip :: "ip_t option"
  status :: int
  buffer :: "nat option"
  line :: string
  behind :: string

text \<open>
  The functions the two files call and do not define are the environment. Each
  call takes its result from a script held by the world: the \<open>n\<close>-th call of a
  function gets the \<open>n\<close>-th entry of its script.
  \<^item> \<^verbatim>\<open>client_read_line\<close>: its return value, the line it leaves in
    \<^verbatim>\<open>client->line\<close>, the bytes the buffer holds behind that line, and the
    status it leaves in \<^verbatim>\<open>client->status\<close>;
  \<^item> \<^verbatim>\<open>client_write\<close>, \<^verbatim>\<open>client_print\<close>: the return value and the status left;
  \<^item> \<^verbatim>\<open>tls_status\<close>, \<^verbatim>\<open>tcp_status\<close>: the pair of values the two probes
    have at one call of \<^verbatim>\<open>client_status\<close>;
  \<^item> \<^verbatim>\<open>tls_client_alloc\<close>: the new context, or \<^verbatim>\<open>NULL\<close>;
  \<^item> \<^verbatim>\<open>getaddrinfo\<close>: its return value and the candidate list; for every candidate
    what \<^verbatim>\<open>socket\<close> and \<^verbatim>\<open>connect\<close> return for it;
  \<^item> \<^verbatim>\<open>mm_alloc\<close>, \<^verbatim>\<open>st_alloc\<close>: whether each of the three allocations of
    \<^verbatim>\<open>client_connect\<close> succeeds, and the address it returns.
\<close>

record read_outcome =
  rd_ret :: int
  rd_line :: string
  rd_behind :: string
  rd_status :: int

record write_outcome =
  wr_ret :: int
  wr_status :: int

record candidate =
  ai_family :: int
  ai_socktype :: int
  ai_protocol :: int
  ai_addrlen :: nat
  ai_addr :: string
  sock_result :: int
  conn_result :: int

text \<open>The calls that create or release a resource, in the order they are made.\<close>

datatype event =
    EvSocket int
  | EvClose int
  | EvFreeAddrInfo
  | EvTlsFree nat
  | EvFreeIp
  | EvFreeBuffer nat
  | EvFreeClient nat

record world =
  objs :: "nat \<Rightarrow> client_t option"
  strs :: "nat \<Rightarrow> string"
  trace :: "event list"
  probes :: "nat \<Rightarrow> int \<times> int"
  probe_n :: nat
  tls_allocs :: "nat \<Rightarrow> nat option"
  tls_n :: nat
  reads :: "nat \<Rightarrow> read_outcome"
  read_n :: nat
  writes :: "nat \<Rightarrow> write_outcome"
  write_n :: nat
  sent :: "string list"
  gai_ret :: int
  gai_info :: "candidate list"
  alloc_ip :: bool
  alloc_client :: "nat option"
  alloc_buffer :: "nat option"

text \<open>The platform's constants (Linux), which the sources take from system headers.\<close>

definition AF_INET :: int where "AF_INET = 2"
definition AF_INET6 :: int where "AF_INET6 = 10"
definition SOCK_STREAM :: int where "SOCK_STREAM = 1"
definition sizeof_sockaddr_in :: nat where "sizeof_sockaddr_in = 16"
definition sizeof_sockaddr_in6 :: nat where "sizeof_sockaddr_in6 = 28"

section \<open>The transport session: \<^verbatim>\<open>clients.c\<close>\<close>

text \<open>
  \<^verbatim>\<open>client_status\<close>. The first assignment of \<^verbatim>\<open>result\<close> (lines 19 to 21) is
  overwritten by each of the three branches that follow, so the value returned is
  the branch's. With a \<^verbatim>\<open>NULL\<close> session both guarded branches are skipped and the
  last one writes \<^verbatim>\<open>client->status\<close>.
\<close>

definition client_status :: "nat option \<Rightarrow> world \<Rightarrow> fault + int \<times> world" where
  "client_status client w =
     (case client of
        None \<Rightarrow> Inl NullDeref
      | Some a \<Rightarrow>
          (case objs w a of
             None \<Rightarrow> Inl UseAfterFree
           | Some c \<Rightarrow>
               (let tls_r = fst (probes w (probe_n w));
                    tcp_r = snd (probes w (probe_n w));
                    w1 = w\<lparr>probe_n := probe_n w + 1\<rparr>
                in if tls c \<noteq> None \<and> status c \<ge> 0 \<and> tls_r = 0 then Inr (status c, w1)
                   else if sockd c \<noteq> - 1 \<and> status c \<ge> 0 \<and> tcp_r = 0 then Inr (status c, w1)
                   else Inr (- 1, w1\<lparr>objs := (objs w1)(a := Some (c\<lparr>status := - 1\<rparr>))\<rparr>))))"

text \<open>\<^verbatim>\<open>client_secure\<close>.\<close>

definition client_secure :: "nat option \<Rightarrow> world \<Rightarrow> fault + int \<times> world" where
  "client_secure client w =
     (case client of
        None \<Rightarrow> Inr (- 1, w)
      | Some a \<Rightarrow>
          (case objs w a of
             None \<Rightarrow> Inl UseAfterFree
           | Some c \<Rightarrow>
               if tls c \<noteq> None then Inr (0, w)
               else
                 (let w1 = w\<lparr>tls_n := tls_n w + 1\<rparr> in
                  case tls_allocs w (tls_n w) of
                    None \<Rightarrow>
                      Inr (- 1, w1\<lparr>objs := (objs w1)(a := Some (c\<lparr>tls := None, status := - 1\<rparr>))\<rparr>)
                  | Some h \<Rightarrow>
                      Inr (0, w1\<lparr>objs := (objs w1)(a := Some (c\<lparr>tls := Some h, status := 1\<rparr>))\<rparr>))))"

text \<open>
  \<^verbatim>\<open>client_close\<close>. \<^verbatim>\<open>mm_cleanup\<close> and \<^verbatim>\<open>st_cleanup\<close> skip a \<^verbatim>\<open>NULL\<close>
  argument (\<^verbatim>\<open>client_connect\<close> calls \<^verbatim>\<open>mm_cleanup(result, ip)\<close> where both may be
  \<^verbatim>\<open>NULL\<close>). The last call, \<^verbatim>\<open>mm_free(client)\<close>, takes the session out of the store;
  no field is reset before it and the caller's pointer is not changed.
\<close>

definition client_close :: "nat option \<Rightarrow> world \<Rightarrow> fault + world" where
  "client_close client w =
     (case client of
        None \<Rightarrow> Inr w
      | Some a \<Rightarrow>
          (case objs w a of
             None \<Rightarrow> Inl UseAfterFree
           | Some c \<Rightarrow>
               Inr (w\<lparr>trace := trace w
                         @ (case tls c of None \<Rightarrow> [] | Some t \<Rightarrow> [EvTlsFree t])
                         @ (if sockd c \<noteq> - 1 then [EvClose (sockd c)] else [])
                         @ (case ip c of None \<Rightarrow> [] | Some i \<Rightarrow> [EvFreeIp])
                         @ (case buffer c of None \<Rightarrow> [] | Some b \<Rightarrow> [EvFreeBuffer b])
                         @ [EvFreeClient a],
                      objs := (objs w)(a := None)\<rparr>)))"

text \<open>
  \<^verbatim>\<open>client_connect\<close>, the loop over the candidates (lines 97 to 137). Its state is
  \<^verbatim>\<open>sd\<close>, \<^verbatim>\<open>ret\<close> and \<^verbatim>\<open>ip\<close>; \<open>ipok\<close> says whether \<^verbatim>\<open>mm_alloc(sizeof(ip_t))\<close>
  succeeds. A failed \<^verbatim>\<open>socket\<close> frees the address list and returns \<^verbatim>\<open>NULL\<close> from
  inside the loop. When the connected peer's address has neither shape, the
  \<^verbatim>\<open>ip_t\<close> just allocated is freed again (line 124).
\<close>

datatype loop_exit =
    SocketFailed
  | LoopDone int int "ip_t option"

fun connect_loop ::
  "bool \<Rightarrow> candidate list \<Rightarrow> int \<Rightarrow> int \<Rightarrow> ip_t option \<Rightarrow> event list \<Rightarrow> loop_exit \<times> event list"
where
  "connect_loop ipok [] sd ret ipv tr = (LoopDone sd ret ipv, tr)"
| "connect_loop ipok (holder # rest) sd ret ipv tr =
     (if sock_result holder = - 1 then (SocketFailed, tr @ [EvFreeAddrInfo])
      else if conn_result holder = 0 then
        (if \<not> ipok then
           (LoopDone (sock_result holder) 0 None, tr @ [EvSocket (sock_result holder)])
         else if ai_addrlen holder = sizeof_sockaddr_in6 \<and> ai_family holder = AF_INET6 then
           (LoopDone (sock_result holder) 0 (Some \<lparr>family = AF_INET6, ip_data = ai_addr holder\<rparr>),
            tr @ [EvSocket (sock_result holder)])
         else if ai_addrlen holder = sizeof_sockaddr_in \<and> ai_family holder = AF_INET then
           (LoopDone (sock_result holder) 0 (Some \<lparr>family = AF_INET, ip_data = ai_addr holder\<rparr>),
            tr @ [EvSocket (sock_result holder)])
         else
           (LoopDone (sock_result holder) 0 None, tr @ [EvSocket (sock_result holder), EvFreeIp]))
      else
        connect_loop ipok rest (sock_result holder) (conn_result holder) ipv
          (tr @ [EvSocket (sock_result holder), EvClose (sock_result holder)]))"

text \<open>
  \<^verbatim>\<open>client_connect\<close>. The new session's memory is zeroed by \<^verbatim>\<open>mm_alloc\<close>, so it
  has no TLS context and a placer that covers nothing.
\<close>

definition client_connect :: "string \<Rightarrow> nat \<Rightarrow> world \<Rightarrow> nat option \<times> world" where
  "client_connect host port w =
     (if gai_ret w \<noteq> 0 \<or> gai_info w = [] \<or> ai_socktype (hd (gai_info w)) \<noteq> SOCK_STREAM then
        (None, if gai_info w \<noteq> [] then w\<lparr>trace := trace w @ [EvFreeAddrInfo]\<rparr> else w)
      else
        (case connect_loop (alloc_ip w) (gai_info w) (- 1) (gai_ret w) None (trace w) of
           (SocketFailed, tr) \<Rightarrow> (None, w\<lparr>trace := tr\<rparr>)
         | (LoopDone sd ret ipv, tr) \<Rightarrow>
             if ret \<noteq> 0 then (None, w\<lparr>trace := tr @ [EvFreeAddrInfo, EvClose sd]\<rparr>)
             else
               (case alloc_client w of
                  None \<Rightarrow>
                    (None, w\<lparr>trace := tr @ [EvFreeAddrInfo]
                                @ (case ipv of None \<Rightarrow> [] | Some i \<Rightarrow> [EvFreeIp]) @ [EvClose sd]\<rparr>)
                | Some a \<Rightarrow>
                    (case alloc_buffer w of
                       None \<Rightarrow>
                         (None, w\<lparr>trace := tr @ [EvFreeAddrInfo, EvFreeClient a]
                                     @ (case ipv of None \<Rightarrow> [] | Some i \<Rightarrow> [EvFreeIp]) @ [EvClose sd]\<rparr>)
                     | Some b \<Rightarrow>
                         (Some a,
                          w\<lparr>trace := tr @ [EvFreeAddrInfo],
                            objs := (objs w)(a := Some \<lparr>sockd = sd, tls = None, ip = ipv, status = 1,
                                                         buffer = Some b, line = [], behind = []\<rparr>)\<rparr>)))))"

section \<open>The environment's functions\<close>

text \<open>
  Modelled from the spec: \<^verbatim>\<open>client_read_line\<close> is not in the sources. It
  returns the byte length read, 0 on an orderly shutdown and a negative value on an
  error, and leaves the line it parsed in \<^verbatim>\<open>client->line\<close>, a view into the
  read buffer. The values come from the script; the spec gives no contract for an
  absent session.
\<close>

definition client_read_line :: "nat option \<Rightarrow> world \<Rightarrow> fault + int \<times> world" where
  "client_read_line client w =
     (case client of
        None \<Rightarrow> Inl NullDeref
      | Some a \<Rightarrow>
          (case objs w a of
             None \<Rightarrow> Inl UseAfterFree
           | Some c \<Rightarrow>
               (let r = reads w (read_n w) in
                Inr (rd_ret r,
                     w\<lparr>read_n := read_n w + 1,
                       objs := (objs w)(a := Some (c\<lparr>line := rd_line r, behind := rd_behind r,
                                                    status := rd_status r\<rparr>))\<rparr>))))"

text \<open>
  Modelled from the spec: \<^verbatim>\<open>client_write\<close> and \<^verbatim>\<open>client_print\<close> are not in the
  sources. They return the count written or a negative value; \<open>sent\<close> keeps the
  text each call was given (for \<^verbatim>\<open>client_print\<close>, the formatted text).
\<close>

definition client_write :: "nat option \<Rightarrow> string \<Rightarrow> world \<Rightarrow> fault + int \<times> world" where
  "client_write client s w =
     (case client of
        None \<Rightarrow> Inl NullDeref
      | Some a \<Rightarrow>
          (case objs w a of
             None \<Rightarrow> Inl UseAfterFree
           | Some c \<Rightarrow>
               (let r = writes w (write_n w) in
                Inr (wr_ret r,
                     w\<lparr>write_n := write_n w + 1, sent := sent w @ [s],
                       objs := (objs w)(a := Some (c\<lparr>status := wr_status r\<rparr>))\<rparr>))))"

definition client_print :: "nat option \<Rightarrow> string \<Rightarrow> world \<Rightarrow> fault + int \<times> world" where
  "client_print client s w = client_write client s w"

text \<open>
  \<^verbatim>\<open>client->line\<close> as the string functions see it (the bytes it covers), and
  \<^verbatim>\<open>pl_char_get(client->line)[i]\<close>, which reads byte \<open>i\<close> from the placer's pointer
  on, whatever the placer's length: a byte of the line, or of the buffer behind it.
\<close>

definition client_line :: "nat option \<Rightarrow> world \<Rightarrow> fault + string \<times> world" where
  "client_line client w =
     (case client of
        None \<Rightarrow> Inl NullDeref
      | Some a \<Rightarrow> (case objs w a of None \<Rightarrow> Inl UseAfterFree | Some c \<Rightarrow> Inr (line c, w)))"

definition pl_char_get_at :: "nat option \<Rightarrow> nat \<Rightarrow> world \<Rightarrow> fault + char" where
  "pl_char_get_at client i w =
     (case client of
        None \<Rightarrow> Inl NullDeref
      | Some a \<Rightarrow>
          (case objs w a of
             None \<Rightarrow> Inl UseAfterFree
           | Some c \<Rightarrow>
               if i < length (line c @ behind c) then Inr ((line c @ behind c) ! i)
               else Inl OutOfBuffer))"

text \<open>
  Modelled from the spec: the string library is not in the sources.
  \<^verbatim>\<open>st_cmp_cs_starts\<close> is the byte-prefix comparison, 0 when the string starts with
  the prefix (only whether it is 0 is used); \<^verbatim>\<open>st_search_cs\<close> is the substring
  search; \<^verbatim>\<open>st_sprint\<close> writes the message into the buffer it is given and writes
  nothing when given \<^verbatim>\<open>NULL\<close>; \<^verbatim>\<open>st_empty\<close> holds of \<^verbatim>\<open>NULL\<close> and of an empty
  buffer.
\<close>

definition st_cmp_cs_starts :: "string \<Rightarrow> string \<Rightarrow> int" where
  "st_cmp_cs_starts s starts = (if take (length starts) s = starts then 0 else 1)"

fun st_search_cs :: "string \<Rightarrow> string \<Rightarrow> bool" where
  "st_search_cs [] pat = (pat = [])"
| "st_search_cs (x # xs) pat = (if take (length pat) (x # xs) = pat then True else st_search_cs xs pat)"

definition st_sprint :: "nat option \<Rightarrow> string \<Rightarrow> world \<Rightarrow> fault + unit \<times> world" where
  "st_sprint s msg w =
     (case s of None \<Rightarrow> Inr ((), w) | Some b \<Rightarrow> Inr ((), w\<lparr>strs := (strs w)(b := msg)\<rparr>))"

definition st_empty :: "nat option \<Rightarrow> world \<Rightarrow> bool" where
  "st_empty s w = (case s of None \<Rightarrow> True | Some b \<Rightarrow> strs w b = [])"

definition CRLF :: string where
  "CRLF = [CHR 0x0D, CHR 0x0A]"

section \<open>The exchange driver: \<^verbatim>\<open>smtp_check_network.c\<close>\<close>

text \<open>
  A function of the driver takes the world and returns \<open>None\<close> when it does not
  return, a fault, or its value and the new world. \<open>or_p\<close> is C's \<^verbatim>\<open>||\<close>: the
  right operand runs only when the left one is false.
\<close>

type_synonym 'a prog = "world \<Rightarrow> (fault + 'a \<times> world) option"

definition return_p :: "'a \<Rightarrow> 'a prog" where
  "return_p x w = Some (Inr (x, w))"

definition bind_p :: "'a prog \<Rightarrow> ('a \<Rightarrow> 'b prog) \<Rightarrow> 'b prog" where
  "bind_p m k w =
     (case m w of
        None \<Rightarrow> None
      | Some (Inl f) \<Rightarrow> Some (Inl f)
      | Some (Inr (x, w')) \<Rightarrow> k x w')"

definition io :: "(world \<Rightarrow> fault + 'a \<times> world) \<Rightarrow> 'a prog" where
  "io f w = Some (f w)"

definition or_p :: "bool prog \<Rightarrow> bool prog \<Rightarrow> bool prog" where
  "or_p l r = bind_p l (\<lambda>b. if b then return_p True else r)"

definition differs :: "'a prog \<Rightarrow> 'a \<Rightarrow> bool prog" where
  "differs m v = bind_p m (\<lambda>x. return_p (x \<noteq> v))"

definition nonpos :: "int prog \<Rightarrow> bool prog" where
  "nonpos m = bind_p m (\<lambda>x. return_p (x \<le> 0))"

definition pos :: "int prog \<Rightarrow> bool prog" where
  "pos m = bind_p m (\<lambda>x. return_p (x > 0))"

definition fails :: "bool prog \<Rightarrow> bool prog" where
  "fails m = bind_p m (\<lambda>b. return_p (\<not> b))"

text \<open>\<^verbatim>\<open>st_cmp_cs_starts(&(client->line), NULLER(code))\<close> as a condition.\<close>

definition line_differs :: "nat option \<Rightarrow> string \<Rightarrow> bool prog" where
  "line_differs client code =
     bind_p (io (client_line client)) (\<lambda>l. return_p (st_cmp_cs_starts l code \<noteq> 0))"

text \<open>\<^verbatim>\<open>check_smtp_client_read_end\<close>: the loop runs as long as the reads return a
  positive result and the byte at offset 3 from the start of the line is not a
  space. The length of the line is not looked at.\<close>

partial_function (option) check_smtp_client_read_end :: "nat option \<Rightarrow> bool prog" where
  "check_smtp_client_read_end client w =
     (case client_read_line client w of
        Inl f \<Rightarrow> Some (Inl f)
      | Inr (n, w1) \<Rightarrow>
          if n > 0 then
            (case pl_char_get_at client 3 w1 of
               Inl f \<Rightarrow> Some (Inl f)
             | Inr ch \<Rightarrow>
                 if ch = CHR '' '' then Some (Inr (True, w1))
                 else check_smtp_client_read_end client w1)
          else Some (Inr (False, w1)))"

text \<open>
  \<^verbatim>\<open>check_smtp_client_mail_rcpt_data\<close>. The value \<^verbatim>\<open>client_print\<close> returns is
  compared with a \<^verbatim>\<open>size_t\<close>; the sizes here are far below \<open>2 ^ 63\<close>, so the
  comparison is the one of the integers.
\<close>

definition check_smtp_client_mail_rcpt_data ::
  "nat option \<Rightarrow> string \<Rightarrow> string \<Rightarrow> nat option \<Rightarrow> bool prog"
where
  "check_smtp_client_mail_rcpt_data client from to errmsg =
     (let line_from = ''MAIL FROM: <%s>'' @ CRLF;
          line_to = ''RCPT TO: <%s>'' @ CRLF;
          size_from = int (length line_from + length from - 2);
          size_to = int (length line_to + length to - 2)
      in
        bind_p
          (or_p (differs (io (client_print client (''MAIL FROM: <'' @ from @ ''>'' @ CRLF))) size_from)
          (or_p (fails (check_smtp_client_read_end client))
          (or_p (differs (io (client_status client)) 1)
                (line_differs client ''250''))))
          (\<lambda>bad.
             if bad then
               bind_p (io (st_sprint errmsg ''Failed to return successful status after MAIL.''))
                 (\<lambda>u. return_p False)
             else
               bind_p
                 (or_p (differs (io (client_print client (''RCPT TO: <'' @ to @ ''>'' @ CRLF))) size_to)
                 (or_p (fails (check_smtp_client_read_end client))
                 (or_p (differs (io (client_status client)) 1)
                       (line_differs client ''250''))))
                 (\<lambda>bad.
                    if bad then
                      bind_p (io (st_sprint errmsg ''Failed to return successful status after RCPT.''))
                        (\<lambda>u. return_p False)
                    else
                      bind_p
                        (or_p (differs (io (client_write client (''DATA'' @ CRLF))) 6)
                        (or_p (fails (check_smtp_client_read_end client))
                        (or_p (differs (io (client_status client)) 1)
                              (line_differs client ''354''))))
                        (\<lambda>bad.
                           if bad then
                             bind_p
                               (io (st_sprint errmsg ''Failed to return a proceed status code after DATA.''))
                               (\<lambda>u. return_p False)
                           else return_p True))))"

text \<open>\<^verbatim>\<open>check_smtp_client_auth_plain\<close>.\<close>

definition check_smtp_client_auth_plain :: "nat option \<Rightarrow> string \<Rightarrow> bool prog" where
  "check_smtp_client_auth_plain client auth =
     bind_p
       (or_p (differs (io (client_print client (''AUTH PLAIN '' @ auth @ CRLF))) (int (length auth) + 13))
       (or_p (fails (check_smtp_client_read_end client))
       (or_p (differs (io (client_status client)) 1)
             (line_differs client ''235''))))
       (\<lambda>bad. if bad then return_p False else return_p True)"

text \<open>\<^verbatim>\<open>check_smtp_client_auth_login\<close>.\<close>

definition check_smtp_client_auth_login :: "nat option \<Rightarrow> string \<Rightarrow> string \<Rightarrow> bool prog" where
  "check_smtp_client_auth_login client user pass =
     bind_p
       (or_p (differs (io (client_write client (''AUTH LOGIN'' @ CRLF))) 12)
       (or_p (fails (check_smtp_client_read_end client))
       (or_p (differs (io (client_status client)) 1)
             (line_differs client ''334''))))
       (\<lambda>bad.
          if bad then return_p False
          else
            bind_p
              (or_p (differs (io (client_print client (user @ CRLF))) (int (length user) + 2))
              (or_p (fails (check_smtp_client_read_end client))
              (or_p (differs (io (client_status client)) 1)
                    (line_differs client ''334''))))
              (\<lambda>bad.
                 if bad then return_p False
                 else
                   bind_p
                     (or_p (differs (io (client_print client (pass @ CRLF))) (int (length pass) + 2))
                     (or_p (fails (check_smtp_client_read_end client))
                     (or_p (differs (io (client_status client)) 1)
                           (line_differs client ''235''))))
                     (\<lambda>bad. if bad then return_p False else return_p True)))"

text \<open>\<^verbatim>\<open>check_smtp_client_quit\<close>.\<close>

definition check_smtp_client_quit :: "nat option \<Rightarrow> nat option \<Rightarrow> bool prog" where
  "check_smtp_client_quit client errmsg =
     bind_p
       (or_p (differs (io (client_write client (''QUIT'' @ CRLF))) 6)
       (or_p (nonpos (io (client_read_line client)))
       (or_p (differs (io (client_status client)) 1)
             (line_differs client ''221''))))
       (\<lambda>bad.
          if bad then
            bind_p
              (io (st_sprint errmsg ''Failed to return successful status following the QUIT command.''))
              (\<lambda>u. return_p False)
          else
            bind_p (pos (io (client_read_line client)))
              (\<lambda>more.
                 if more then
                   bind_p
                     (io (st_sprint errmsg
                        ''The server failed to close the connection after issuing a QUIT command.''))
                     (\<lambda>u. return_p False)
                 else return_p True))"

text \<open>
  \<^verbatim>\<open>check_smtp_network_auth_sthread\<close>. \<open>close_false\<close> is the end of each failing
  branch: \<^verbatim>\<open>client_close(client); return false;\<close>. In the branch of line 255 the
  first operand, \<^verbatim>\<open>(errmsg = NULL)\<close>, assigns \<^verbatim>\<open>NULL\<close> to the local
  \<^verbatim>\<open>errmsg\<close> and is false, so the chain goes on; from there on \<^verbatim>\<open>errmsg\<close> is
  \<^verbatim>\<open>NULL\<close>.
\<close>

definition close_false :: "nat option \<Rightarrow> bool prog" where
  "close_false client =
     bind_p (io (\<lambda>w. case client_close client w of Inl f \<Rightarrow> Inl f | Inr w' \<Rightarrow> Inr ((), w')))
       (\<lambda>u. return_p False)"

definition check_smtp_network_auth_sthread :: "nat option \<Rightarrow> nat \<Rightarrow> bool \<Rightarrow> bool prog" where
  "check_smtp_network_auth_sthread errmsg port login =
     bind_p (io (\<lambda>w. Inr (client_connect ''localhost'' port w))) (\<lambda>client.
     bind_p
       (or_p (return_p (client = None))
       (or_p (nonpos (io (client_read_line client)))
       (or_p (differs (io (client_status client)) 1)
       (or_p (line_differs client ''220'')
             (bind_p (io (client_line client)) (\<lambda>l. return_p (\<not> st_search_cs l '' ESMTP '')))))))
       (\<lambda>bad.
     if bad then
       bind_p (io (st_sprint errmsg ''Failed to connect with the SMTP server.''))
         (\<lambda>u. close_false client)
     else
     bind_p
       (or_p (differs (io (client_write client (''EHLO localhost'' @ CRLF))) 16)
       (or_p (fails (check_smtp_client_read_end client))
       (or_p (differs (io (client_status client)) 1)
             (line_differs client ''250''))))
       (\<lambda>bad.
     if bad then
       bind_p (io (st_sprint errmsg ''Failed to return successful status after EHLO.''))
         (\<lambda>u. close_false client)
     else
     bind_p
       (if login then check_smtp_client_auth_login client ''bWFnbWE='' ''aW52YWxpZHBhc3N3b3Jk''
        else check_smtp_client_auth_plain client ''bWFnbWEAbWFnbWEAaW52YWxpZHBhc3N3b3Jk'')
       (\<lambda>authenticated.
     if authenticated then
       bind_p
         (io (st_sprint errmsg
            ''Invalid credentials appear to have authenticated when they should have failed.''))
         (\<lambda>u. close_false client)
     else
     bind_p
       (fails
          (if login then check_smtp_client_auth_login client ''bWFnbWE='' ''cGFzc3dvcmQ=''
           else check_smtp_client_auth_plain client ''bWFnbWEAbWFnbWEAcGFzc3dvcmQ=''))
       (\<lambda>bad.
     if bad then
       bind_p
         (io (st_sprint errmsg ''Failed to authenticate even though we supplied valid credentials.''))
         (\<lambda>u. close_false client)
     else
     (let errmsg = (None :: nat option) in
     bind_p
       (or_p (fails (check_smtp_client_mail_rcpt_data client ''ladar@lavabit.com''
                ''princess@example.com'' errmsg))
       (or_p (differs (io (client_print client (''.'' @ CRLF))) 3)
       (or_p (fails (check_smtp_client_read_end client))
       (or_p (differs (io (client_status client)) 1)
             (line_differs client ''550'')))))
       (\<lambda>bad.
     if bad then
       bind_p
         (if errmsg = None then
            io (st_sprint errmsg
              ''Failed to return an error status after sending from an unauthenticated account.'')
          else return_p ())
         (\<lambda>u. close_false client)
     else
     bind_p
       (or_p (fails (check_smtp_client_mail_rcpt_data client ''magma@lavabit.com''
                ''princess@example.com'' errmsg))
       (or_p (differs (io (client_print client (''.'' @ CRLF))) 3)
       (or_p (fails (check_smtp_client_read_end client))
       (or_p (differs (io (client_status client)) 1)
             (line_differs client ''250'')))))
       (\<lambda>bad.
     if bad then
       bind_p (io (\<lambda>w. Inr (st_empty errmsg w, w)))
         (\<lambda>empty.
            bind_p
              (if empty then
                 io (st_sprint errmsg
                   ''Failed to return successful status after sending from an authenticated account.'')
               else return_p ())
              (\<lambda>u. close_false client))
     else
     bind_p (fails (check_smtp_client_quit client errmsg))
       (\<lambda>bad.
     if bad then close_false client
     else
       bind_p (io (\<lambda>w. case client_close client w of Inl f \<Rightarrow> Inl f | Inr w' \<Rightarrow> Inr ((), w')))
         (\<lambda>u. return_p True))))))))))"

section \<open>Notions the properties are stated with\<close>

text \<open>
  A sequence of calls of \<^verbatim>\<open>client_status\<close> and \<^verbatim>\<open>client_secure\<close> on one session,
  in any order.
\<close>

datatype session_op = OpStatus | OpSecure

fun run_ops :: "session_op list \<Rightarrow> nat option \<Rightarrow> world \<Rightarrow> fault + world" where
  "run_ops [] client w = Inr w"
| "run_ops (OpStatus # ops) client w =
     (case client_status client w of Inl f \<Rightarrow> Inl f | Inr (r, w') \<Rightarrow> run_ops ops client w')"
| "run_ops (OpSecure # ops) client w =
     (case client_secure client w of Inl f \<Rightarrow> Inl f | Inr (r, w') \<Rightarrow> run_ops ops client w')"

text \<open>
  A session whose status is -1, or is 1 over a TLS context that the session \<open>c\<close> it
  started from did not have; and a TLS context, once there, stays.
\<close>

definition dead_or_upgraded :: "client_t \<Rightarrow> client_t \<Rightarrow> bool" where
  "dead_or_upgraded c c' =
     ((status c' = - 1 \<or> (status c' = 1 \<and> tls c = None \<and> tls c' \<noteq> None))
      \<and> (tls c = None \<or> tls c' \<noteq> None))"

text \<open>
  The \<open>i\<close>-th read from now on. The byte that line 20 tests after a read, the one
  at offset 3 from the start of the line, and whether the buffer reaches that far.
  A read that makes the loop of \<^verbatim>\<open>check_smtp_client_read_end\<close> go on (a positive
  result and a tested byte that is not a space), and one that ends it with true.
  The world after \<open>k\<close> reads on the session at \<open>a\<close>.
\<close>

definition nth_read :: "world \<Rightarrow> nat \<Rightarrow> read_outcome" where
  "nth_read w i = reads w (read_n w + i)"

definition tested_byte :: "read_outcome \<Rightarrow> char" where
  "tested_byte r = (rd_line r @ rd_behind r) ! 3"

definition in_buffer :: "read_outcome \<Rightarrow> bool" where
  "in_buffer r = (3 < length (rd_line r @ rd_behind r))"

definition continues :: "read_outcome \<Rightarrow> bool" where
  "continues r = (0 < rd_ret r \<and> in_buffer r \<and> tested_byte r \<noteq> CHR '' '')"

definition ends :: "read_outcome \<Rightarrow> bool" where
  "ends r = (0 < rd_ret r \<and> in_buffer r \<and> tested_byte r = CHR '' '')"

definition reads_done :: "nat \<Rightarrow> nat \<Rightarrow> world \<Rightarrow> world" where
  "reads_done a k w =
     (if k = 0 then w
      else w\<lparr>read_n := read_n w + k,
             objs := (objs w)(a := map_option
               (\<lambda>c. c\<lparr>line := rd_line (nth_read w (k - 1)), behind := rd_behind (nth_read w (k - 1)),
                      status := rd_status (nth_read w (k - 1))\<rparr>)
               (objs w a))\<rparr>)"

text \<open>
  A function of the driver that leaves every string buffer as it was; one that
  leaves them as they were or prints one message of \<open>S\<close> into the buffer at \<open>e\<close>.
  The messages of the first four failing branches of
  \<^verbatim>\<open>check_smtp_network_auth_sthread\<close> (lines 228, 236, 243 and 250).
\<close>

definition keeps_strs :: "'a prog \<Rightarrow> bool" where
  "keeps_strs m = (\<forall>w x w'. m w = Some (Inr (x, w')) \<longrightarrow> strs w' = strs w)"

definition writes_in :: "nat \<Rightarrow> string set \<Rightarrow> 'a prog \<Rightarrow> bool" where
  "writes_in e S m =
     (\<forall>w x w'. m w = Some (Inr (x, w')) \<longrightarrow>
        strs w' = strs w \<or> (\<exists>msg. msg \<in> S \<and> strs w' = (strs w)(e := msg)))"

definition early_messages :: "string set" where
  "early_messages =
     {''Failed to connect with the SMTP server.'',
      ''Failed to return successful status after EHLO.'',
      ''Invalid credentials appear to have authenticated when they should have failed.'',
      ''Failed to authenticate even though we supplied valid credentials.''}"

section \<open>Concrete sessions\<close>

text \<open>A script that answers from a list and then with a fixed outcome.\<close>

definition script :: "'a list \<Rightarrow> 'a \<Rightarrow> nat \<Rightarrow> 'a" where
  "script xs d n = (if n < length xs then xs ! n else d)"

text \<open>
  An orderly shutdown. A reply line as \<^verbatim>\<open>client_read_line\<close> hands it over, with
  the bytes \<open>rest\<close> behind it in the buffer; a reply line in a buffer whose next
  bytes, the first four of them, have the value 0.
\<close>

definition eof :: read_outcome where
  "eof = \<lparr>rd_ret = 0, rd_line = [], rd_behind = [], rd_status = 2\<rparr>"

definition reply_before :: "string \<Rightarrow> string \<Rightarrow> read_outcome" where
  "reply_before s rest =
     \<lparr>rd_ret = int (length s) + 2, rd_line = s @ CRLF, rd_behind = rest, rd_status = 1\<rparr>"

definition zeros :: string where
  "zeros = [CHR 0x00, CHR 0x00, CHR 0x00, CHR 0x00]"

definition reply :: "string \<Rightarrow> read_outcome" where
  "reply s = reply_before s zeros"

text \<open>
  A world with no session, whose probes report nothing new, whose reads find the
  connection shut down and whose writes fail.
\<close>

definition world0 :: world where
  "world0 =
     \<lparr>objs = (\<lambda>a. None), strs = (\<lambda>a. []), trace = [],
      probes = (\<lambda>n. (0, 0)), probe_n = 0,
      tls_allocs = (\<lambda>n. None), tls_n = 0,
      reads = (\<lambda>n. eof), read_n = 0,
      writes = (\<lambda>n. \<lparr>wr_ret = - 1, wr_status = - 1\<rparr>), write_n = 0, sent = [],
      gai_ret = 0, gai_info = [], alloc_ip = True, alloc_client = Some 0, alloc_buffer = Some 1\<rparr>"

text \<open>A host with one address, which refuses the connection.\<close>

definition cand_refused :: candidate where
  "cand_refused =
     \<lparr>ai_family = 2, ai_socktype = 1, ai_protocol = 6, ai_addrlen = 16, ai_addr = ''127.0.0.1'',
      sock_result = 3, conn_result = - 1\<rparr>"

text \<open>The same address, accepting the connection.\<close>

definition cand_ok :: candidate where
  "cand_ok = cand_refused\<lparr>conn_result := 0\<rparr>"

definition peer4 :: ip_t where
  "peer4 = \<lparr>family = 2, ip_data = ''127.0.0.1''\<rparr>"

definition session_plain :: client_t where
  "session_plain =
     \<lparr>sockd = 5, tls = None, ip = None, status = 1, buffer = Some 1, line = [], behind = []\<rparr>"

definition session_tls :: client_t where
  "session_tls = session_plain\<lparr>tls := Some 7\<rparr>"

definition w_session :: world where
  "w_session = world0\<lparr>objs := (objs world0)(0 := Some session_plain)\<rparr>"

text \<open>A session over TLS with its peer address; the world after it is closed.\<close>

definition w_open :: world where
  "w_open = world0\<lparr>objs := (objs world0)(0 := Some (session_tls\<lparr>ip := Some peer4\<rparr>))\<rparr>"

definition w_closed :: world where
  "w_closed = w_open\<lparr>trace := [EvTlsFree 7, EvClose 5, EvFreeIp, EvFreeBuffer 1, EvFreeClient 0],
                      objs := (objs w_open)(0 := None)\<rparr>"

text \<open>A session with no TLS context, no descriptor and no buffer.\<close>

definition w_partial :: world where
  "w_partial = world0\<lparr>objs := (objs world0)(0 := Some (session_plain\<lparr>sockd := - 1, buffer := None\<rparr>))\<rparr>"

text \<open>A host that accepts the connection, where the allocation of the read buffer
  fails.\<close>

definition w_no_buffer :: world where
  "w_no_buffer = world0\<lparr>gai_info := [cand_ok], alloc_buffer := None\<rparr>"

text \<open>A plain session whose status is -1, where \<^verbatim>\<open>tls_client_alloc\<close> succeeds; the
  world after \<^verbatim>\<open>client_secure\<close>.\<close>

definition w_dead :: world where
  "w_dead = world0\<lparr>objs := (objs world0)(0 := Some (session_plain\<lparr>status := - 1\<rparr>)),
                    tls_allocs := (\<lambda>n. Some 7)\<rparr>"

definition w_dead_secured :: world where
  "w_dead_secured =
     w_dead\<lparr>tls_n := 1, objs := (objs w_dead)(0 := Some (session_plain\<lparr>tls := Some 7, status := 1\<rparr>))\<rparr>"

text \<open>A TLS session whose status is -1; a plain one, where \<^verbatim>\<open>tls_client_alloc\<close>
  fails.\<close>

definition w_dead_tls :: world where
  "w_dead_tls = world0\<lparr>objs := (objs world0)(0 := Some (session_tls\<lparr>status := - 1\<rparr>)),
                        tls_allocs := (\<lambda>n. Some 8)\<rparr>"

definition w_dead_no_tls :: world where
  "w_dead_no_tls = world0\<lparr>objs := (objs world0)(0 := Some (session_plain\<lparr>status := - 1\<rparr>))\<rparr>"

text \<open>A TLS session whose TLS probe reports an error while the TCP probe reports
  nothing new.\<close>

definition w_tls_down :: world where
  "w_tls_down = world0\<lparr>objs := (objs world0)(0 := Some session_tls), probes := (\<lambda>n. (1, 0))\<rparr>"

text \<open>A host that accepts the connection from an address of neither shape.\<close>

definition w_odd_peer :: world where
  "w_odd_peer = world0\<lparr>gai_info := [cand_ok\<lparr>ai_addrlen := 0\<rparr>]\<rparr>"

text \<open>The host does not accept the connection.\<close>

definition w_refused :: world where
  "w_refused = world0\<lparr>gai_info := [cand_refused]\<rparr>"

text \<open>
  Servers: a reply of three lines, one of one line, two continuation lines and
  then a shutdown, and an empty line and then a shutdown. The last server sends
  an empty line and the line \<open>A B\<close> in one piece and shuts down: when the empty
  line is handed over, the buffer holds \<open>A B\<close> behind it.
\<close>

definition w_multi :: world where
  "w_multi = w_session\<lparr>reads := script [reply ''250-First'', reply ''250-Second'', reply ''250 Third''] eof\<rparr>"

definition w_single :: world where
  "w_single = w_session\<lparr>reads := script [reply ''250 OK''] eof\<rparr>"

definition w_cont_fail :: world where
  "w_cont_fail = w_session\<lparr>reads := script [reply ''250-First'', reply ''250-Second''] eof\<rparr>"

definition w_short :: world where
  "w_short = w_session\<lparr>reads := script [reply []] eof\<rparr>"

definition w_space_behind :: world where
  "w_space_behind =
     w_session\<lparr>reads := script [reply_before [] (''A B'' @ CRLF), reply ''A B''] eof\<rparr>"

text \<open>A failed read, and a write that returns \<open>n\<close>.\<close>

definition reset :: read_outcome where
  "reset = \<lparr>rd_ret = - 1, rd_line = [], rd_behind = [], rd_status = - 1\<rparr>"

definition written :: "int \<Rightarrow> write_outcome" where
  "written n = \<lparr>wr_ret = n, wr_status = 1\<rparr>"

text \<open>A server that answers QUIT with 221 and shuts the connection down.\<close>

definition w_quit_ok :: world where
  "w_quit_ok = w_session\<lparr>writes := script [written 6] (written (- 1)),
                         reads := script [reply ''221 Bye''] eof\<rparr>"

text \<open>A server that answers QUIT with 221, after which the read fails.\<close>

definition w_quit_reset :: world where
  "w_quit_reset = w_session\<lparr>writes := script [written 6] (written (- 1)),
                            reads := script [reply ''221 Bye''] reset\<rparr>"

text \<open>
  A server that accepts the connection, rejects the invalid credentials, accepts
  the valid ones, and then accepts mail from an account that did not authenticate:
  it answers the final dot with 250 where 550 is due.
\<close>

definition w_open_relay :: world where
  "w_open_relay =
     world0\<lparr>gai_info := [cand_ok],
            writes := script [written 16, written 49, written 41, written 32, written 33, written 6,
                              written 3] (written (- 1)),
            reads := script [reply ''220 magma ESMTP ready'', reply ''250 OK'',
                             reply ''535 Authentication failed'', reply ''235 Authenticated'',
                             reply ''250 OK'', reply ''250 OK'', reply ''354 Go'',
                             reply ''250 Queued''] eof\<rparr>"

text \<open>A server that answers every step as the scenario expects.\<close>

definition w_conformant :: world where
  "w_conformant =
     world0\<lparr>gai_info := [cand_ok],
            writes := script [written 16, written 49, written 41, written 32, written 33, written 6,
                              written 3, written 32, written 33, written 6, written 3, written 6]
                        (written (- 1)),
            reads := script [reply ''220 magma ESMTP ready'', reply ''250-magma'', reply ''250 AUTH PLAIN LOGIN'',
                             reply ''535 Authentication failed'', reply ''235 Authenticated'',
                             reply ''250 OK'', reply ''250 OK'', reply ''354 Go'',
                             reply ''550 Relay denied'',
                             reply ''250 OK'', reply ''250 OK'', reply ''354 Go'',
                             reply ''250 Queued'', reply ''221 Bye''] eof\<rparr>"

text \<open>What a run returns, and what it leaves in the buffer at \<open>e\<close>.\<close>

definition outcome :: "(fault + 'a \<times> world) option \<Rightarrow> (fault + 'a) option" where
  "outcome r = map_option (map_sum id fst) r"

definition message_left :: "nat \<Rightarrow> (fault + 'a \<times> world) option \<Rightarrow> (fault + string) option" where
  "message_left e r = map_option (map_sum id (\<lambda>p. strs (snd p) e)) r"

section \<open>The transport session: properties\<close>

subsection \<open>\<^verbatim>\<open>client_secure\<close> on a secured session\<close>

text \<open>
  C7. On a session whose TLS context is already there, \<^verbatim>\<open>client_secure\<close> returns 0
  and changes nothing: not the context, the descriptor, the status or the buffer,
  and \<^verbatim>\<open>tls_client_alloc\<close> is not called.
\<close>

theorem client_secure_idempotent:
  assumes "objs w a = Some c" and "tls c \<noteq> None"
  shows "client_secure (Some a) w = Inr (0, w)"
  using assms by (simp add: client_secure_def)

theorem client_secure_idempotent_witness:
  "client_secure (Some 0) w_open = Inr (0, w_open)"
proof -
  have live: "objs w_open 0 = Some (session_tls\<lparr>ip := Some peer4\<rparr>)"
    by (simp add: w_open_def world0_def)
  have secured: "tls (session_tls\<lparr>ip := Some peer4\<rparr>) \<noteq> None"
    by (simp add: session_tls_def)
  show ?thesis
    by (rule client_secure_idempotent [OF live secured])
qed

subsection \<open>\<^verbatim>\<open>client_status\<close> needs a session\<close>

text \<open>
  C10. \<^verbatim>\<open>client_status\<close> on a \<^verbatim>\<open>NULL\<close> session writes through the null pointer; on
  a session it returns -1 or the stored status, so a value of -1, 0, 1, 2 when the
  stored status is one of these. \<^verbatim>\<open>client_secure\<close> on a \<^verbatim>\<open>NULL\<close> session returns
  -1 and \<^verbatim>\<open>client_close\<close> does nothing.
\<close>

theorem client_status_requires_session:
  "client_status None w = Inl NullDeref
   \<and> (objs w a = Some c \<longrightarrow>
        (\<exists>r w'. client_status (Some a) w = Inr (r, w') \<and> (r = - 1 \<or> r = status c)
           \<and> (status c \<in> {- 1, 0, 1, 2} \<longrightarrow> r \<in> {- 1, 0, 1, 2})))
   \<and> client_secure None w = Inr (- 1, w)
   \<and> client_close None w = Inr w"
  by (auto simp add: client_status_def client_secure_def client_close_def Let_def)

theorem client_status_requires_session_witness:
  "client_status None w_open = Inl NullDeref
   \<and> (\<exists>r w'. client_status (Some 0) w_open = Inr (r, w') \<and> r \<in> {- 1, 0, 1, 2})
   \<and> client_secure None w_open = Inr (- 1, w_open)
   \<and> client_close None w_open = Inr w_open"
proof -
  have live: "objs w_open 0 = Some (session_tls\<lparr>ip := Some peer4\<rparr>)"
    by (simp add: w_open_def world0_def)
  have range: "status (session_tls\<lparr>ip := Some peer4\<rparr>) \<in> {- 1, 0, 1, 2}"
    by (simp add: session_tls_def session_plain_def)
  show ?thesis
    using client_status_requires_session [of w_open 0 "session_tls\<lparr>ip := Some peer4\<rparr>"] live range
    by blast
qed

subsection \<open>\<^verbatim>\<open>client_status\<close> on a TLS session\<close>

text \<open>
  C3, as the code has it. On a session with a TLS context and a stored status of
  at least 0: when the TLS probe returns 0 the stored status is returned and the
  session is unchanged. When it returns something else the TCP probe decides: with
  a valid descriptor and a TCP probe of 0 the stored status is again returned and
  the session is unchanged; otherwise -1 is returned and stored.
\<close>

theorem client_status_tls_probe:
  assumes "objs w a = Some c" and "tls c \<noteq> None" and "0 \<le> status c"
  shows "client_status (Some a) w =
     (if fst (probes w (probe_n w)) = 0 then Inr (status c, w\<lparr>probe_n := probe_n w + 1\<rparr>)
      else if sockd c \<noteq> - 1 \<and> snd (probes w (probe_n w)) = 0
        then Inr (status c, w\<lparr>probe_n := probe_n w + 1\<rparr>)
      else Inr (- 1, w\<lparr>probe_n := probe_n w + 1, objs := (objs w)(a := Some (c\<lparr>status := - 1\<rparr>))\<rparr>))"
  using assms by (simp add: client_status_def Let_def)

theorem client_status_tls_probe_witness:
  "client_status (Some 0) (w_tls_down\<lparr>probes := (\<lambda>n. (0, 1))\<rparr>)
     = Inr (1, w_tls_down\<lparr>probes := (\<lambda>n. (0, 1)), probe_n := 1\<rparr>)
   \<and> client_status (Some 0) (w_tls_down\<lparr>probes := (\<lambda>n. (1, 1))\<rparr>)
     = Inr (- 1, w_tls_down\<lparr>probes := (\<lambda>n. (1, 1)), probe_n := 1,
                   objs := (objs w_tls_down)(0 := Some (session_tls\<lparr>status := - 1\<rparr>))\<rparr>)"
  using client_status_tls_probe [of "w_tls_down\<lparr>probes := (\<lambda>n. (0, 1))\<rparr>" 0 session_tls]
    client_status_tls_probe [of "w_tls_down\<lparr>probes := (\<lambda>n. (1, 1))\<rparr>" 0 session_tls]
  by (simp add: w_tls_down_def world0_def session_tls_def session_plain_def)

text \<open>
  The TLS probe reports an error, the TCP probe nothing new: the call returns 1 and
  the stored status stays 1.
\<close>

theorem client_status_tls_probe_counterexample:
  "map_option tls (objs w_tls_down 0) = Some (Some 7)
   \<and> map_option status (objs w_tls_down 0) = Some 1
   \<and> fst (probes w_tls_down (probe_n w_tls_down)) = 1
   \<and> client_status (Some 0) w_tls_down = Inr (1, w_tls_down\<lparr>probe_n := 1\<rparr>)
   \<and> map_option status (objs (w_tls_down\<lparr>probe_n := 1\<rparr>) 0) = Some 1"
  by (simp add: w_tls_down_def world0_def session_tls_def session_plain_def client_status_def)

subsection \<open>A status of -1\<close>

lemma client_status_dead:
  assumes "objs w a = Some c" and "status c = - 1"
  shows "client_status (Some a) w = Inr (- 1, w\<lparr>probe_n := probe_n w + 1\<rparr>)"
proof -
  have "c\<lparr>status := - 1\<rparr> = c" using assms(2) by simp
  then have "(objs w)(a := Some (c\<lparr>status := - 1\<rparr>)) = objs w" using assms(1) by auto
  then show ?thesis using assms by (simp add: client_status_def Let_def)
qed

lemma step_status:
  assumes "objs w a = Some c'" and "dead_or_upgraded c c'"
  shows "\<exists>r w' c''. client_status (Some a) w = Inr (r, w') \<and> objs w' a = Some c'' \<and> dead_or_upgraded c c''"
  using assms by (auto simp add: client_status_def Let_def dead_or_upgraded_def)

lemma step_secure:
  assumes "objs w a = Some c'" and "dead_or_upgraded c c'"
  shows "\<exists>r w' c''. client_secure (Some a) w = Inr (r, w') \<and> objs w' a = Some c'' \<and> dead_or_upgraded c c''"
  using assms by (auto simp add: client_secure_def Let_def dead_or_upgraded_def split: option.splits)

lemma run_ops_inv:
  assumes "objs w a = Some c'" and "dead_or_upgraded c c'"
  shows "\<exists>w' c''. run_ops ops (Some a) w = Inr w' \<and> objs w' a = Some c'' \<and> dead_or_upgraded c c''"
  using assms
proof (induction ops arbitrary: w c')
  case Nil
  then show ?case by simp
next
  case (Cons x ops)
  show ?case
  proof (cases x)
    case OpStatus
    from step_status [OF Cons.prems] obtain r w1 c1 where
      s: "client_status (Some a) w = Inr (r, w1)" "objs w1 a = Some c1" "dead_or_upgraded c c1"
      by blast
    from Cons.IH [OF s(2) s(3)] show ?thesis using s(1) OpStatus by simp
  next
    case OpSecure
    from step_secure [OF Cons.prems] obtain r w1 c1 where
      s: "client_secure (Some a) w = Inr (r, w1)" "objs w1 a = Some c1" "dead_or_upgraded c c1"
      by blast
    from Cons.IH [OF s(2) s(3)] show ?thesis using s(1) OpSecure by simp
  qed
qed

lemma client_secure_dead:
  assumes "objs w a = Some c" and "status c = - 1"
  shows "client_secure (Some a) w =
     (if tls c \<noteq> None then Inr (0, w)
      else case tls_allocs w (tls_n w) of
             None \<Rightarrow> Inr (- 1, w\<lparr>tls_n := tls_n w + 1\<rparr>)
           | Some h \<Rightarrow>
               Inr (0, w\<lparr>tls_n := tls_n w + 1,
                         objs := (objs w)(a := Some (c\<lparr>tls := Some h, status := 1\<rparr>))\<rparr>))"
proof (cases "tls c")
  case (Some t)
  then show ?thesis using assms by (simp add: client_secure_def)
next
  case None
  then have "c\<lparr>tls := None, status := - 1\<rparr> = c" using assms(2) by simp
  then have "(objs w)(a := Some (c\<lparr>tls := None, status := - 1\<rparr>)) = objs w"
    using assms(1) by auto
  then show ?thesis
    using assms None by (simp add: client_secure_def Let_def split: option.splits)
qed

lemma run_ops_dead_stays:
  assumes "objs w a = Some c" and "status c = - 1"
    and "tls c \<noteq> None \<or> (\<forall>n. tls_n w \<le> n \<longrightarrow> tls_allocs w n = None)"
  shows "\<exists>w'. run_ops ops (Some a) w = Inr w' \<and> objs w' a = Some c"
  using assms(1,3)
proof (induction ops arbitrary: w)
  case Nil
  then show ?case by simp
next
  case (Cons x ops)
  show ?case
  proof (cases x)
    case OpStatus
    let ?w1 = "w\<lparr>probe_n := probe_n w + 1\<rparr>"
    have s: "client_status (Some a) w = Inr (- 1, ?w1)"
      by (rule client_status_dead [OF Cons.prems(1) assms(2)])
    have "objs ?w1 a = Some c"
      and "tls c \<noteq> None \<or> (\<forall>n. tls_n ?w1 \<le> n \<longrightarrow> tls_allocs ?w1 n = None)"
      using Cons.prems by simp_all
    from Cons.IH [OF this] show ?thesis using s OpStatus by simp
  next
    case OpSecure
    show ?thesis
    proof (cases "tls c")
      case (Some t)
      then have s: "client_secure (Some a) w = Inr (0, w)"
        using client_secure_dead [OF Cons.prems(1) assms(2)] by simp
      from Cons.IH [OF Cons.prems] show ?thesis using s OpSecure by simp
    next
      case None
      let ?w1 = "w\<lparr>tls_n := tls_n w + 1\<rparr>"
      from None Cons.prems(2) have fail: "\<forall>n. tls_n w \<le> n \<longrightarrow> tls_allocs w n = None" by simp
      then have "tls_allocs w (tls_n w) = None" by simp
      then have s: "client_secure (Some a) w = Inr (- 1, ?w1)"
        using client_secure_dead [OF Cons.prems(1) assms(2)] None by simp
      have "objs ?w1 a = Some c"
        and "tls c \<noteq> None \<or> (\<forall>n. tls_n ?w1 \<le> n \<longrightarrow> tls_allocs ?w1 n = None)"
        using Cons.prems(1) fail by simp_all
      from Cons.IH [OF this] show ?thesis using s OpSecure by simp
    qed
  qed
qed

text \<open>
  C2, as the code has it. On a session whose stored status is -1,
  \<^verbatim>\<open>client_status\<close> returns -1 and leaves the session as it is.
  \<^verbatim>\<open>client_secure\<close> returns 0 and changes nothing when the session has a TLS
  context; without one it returns -1 and leaves the status at -1 when
  \<^verbatim>\<open>tls_client_alloc\<close> fails, and returns 0, keeps the new context and sets the
  status to 1 when it succeeds. After any sequence of the two calls the status is
  -1, or it is 1 and the session, which had no TLS context, has one now; it is
  never 2. When the session has a TLS context, or no \<^verbatim>\<open>tls_client_alloc\<close> from
  now on succeeds, every sequence leaves the session as it is, with status -1.
\<close>

theorem status_error_sticky:
  assumes "objs w a = Some c" and "status c = - 1"
  shows "client_status (Some a) w = Inr (- 1, w\<lparr>probe_n := probe_n w + 1\<rparr>)
    \<and> client_secure (Some a) w =
        (if tls c \<noteq> None then Inr (0, w)
         else case tls_allocs w (tls_n w) of
                None \<Rightarrow> Inr (- 1, w\<lparr>tls_n := tls_n w + 1\<rparr>)
              | Some h \<Rightarrow>
                  Inr (0, w\<lparr>tls_n := tls_n w + 1,
                            objs := (objs w)(a := Some (c\<lparr>tls := Some h, status := 1\<rparr>))\<rparr>))
    \<and> (\<exists>w' c'. run_ops ops (Some a) w = Inr w' \<and> objs w' a = Some c'
          \<and> (status c' = - 1 \<or> (status c' = 1 \<and> tls c = None \<and> tls c' \<noteq> None)))
    \<and> (tls c \<noteq> None \<or> (\<forall>n. tls_n w \<le> n \<longrightarrow> tls_allocs w n = None)
          \<longrightarrow> (\<exists>w'. run_ops ops (Some a) w = Inr w' \<and> objs w' a = Some c))"
proof (intro conjI impI)
  show "client_status (Some a) w = Inr (- 1, w\<lparr>probe_n := probe_n w + 1\<rparr>)"
    by (rule client_status_dead [OF assms])
next
  show "client_secure (Some a) w =
        (if tls c \<noteq> None then Inr (0, w)
         else case tls_allocs w (tls_n w) of
                None \<Rightarrow> Inr (- 1, w\<lparr>tls_n := tls_n w + 1\<rparr>)
              | Some h \<Rightarrow>
                  Inr (0, w\<lparr>tls_n := tls_n w + 1,
                            objs := (objs w)(a := Some (c\<lparr>tls := Some h, status := 1\<rparr>))\<rparr>))"
    by (rule client_secure_dead [OF assms])
next
  have "dead_or_upgraded c c"
    using assms(2) by (cases "tls c") (simp_all add: dead_or_upgraded_def)
  from run_ops_inv [OF assms(1) this, of ops] obtain w' c' where
    "run_ops ops (Some a) w = Inr w'" "objs w' a = Some c'" "dead_or_upgraded c c'"
    by blast
  then show "\<exists>w' c'. run_ops ops (Some a) w = Inr w' \<and> objs w' a = Some c'
          \<and> (status c' = - 1 \<or> (status c' = 1 \<and> tls c = None \<and> tls c' \<noteq> None))"
    unfolding dead_or_upgraded_def by blast
next
  assume "tls c \<noteq> None \<or> (\<forall>n. tls_n w \<le> n \<longrightarrow> tls_allocs w n = None)"
  then show "\<exists>w'. run_ops ops (Some a) w = Inr w' \<and> objs w' a = Some c"
    by (rule run_ops_dead_stays [OF assms])
qed

theorem status_error_sticky_witness:
  "client_status (Some 0) w_dead = Inr (- 1, w_dead\<lparr>probe_n := probe_n w_dead + 1\<rparr>)
   \<and> client_secure (Some 0) w_dead = Inr (0, w_dead_secured)
   \<and> client_secure (Some 0) w_dead_no_tls = Inr (- 1, w_dead_no_tls\<lparr>tls_n := 1\<rparr>)
   \<and> client_secure (Some 0) w_dead_tls = Inr (0, w_dead_tls)
   \<and> (\<exists>w' c'. run_ops [OpStatus, OpSecure, OpStatus] (Some 0) w_dead = Inr w' \<and> objs w' 0 = Some c'
         \<and> (status c' = - 1
              \<or> (status c' = 1 \<and> tls (session_plain\<lparr>status := - 1\<rparr>) = None \<and> tls c' \<noteq> None)))
   \<and> (\<exists>w'. run_ops [OpSecure, OpStatus, OpSecure] (Some 0) w_dead_no_tls = Inr w'
         \<and> objs w' 0 = Some (session_plain\<lparr>status := - 1\<rparr>))
   \<and> (\<exists>w'. run_ops [OpSecure, OpStatus, OpSecure] (Some 0) w_dead_tls = Inr w'
         \<and> objs w' 0 = Some (session_tls\<lparr>status := - 1\<rparr>))"
proof -
  have live: "objs w_dead 0 = Some (session_plain\<lparr>status := - 1\<rparr>)"
    by (simp add: w_dead_def world0_def)
  have live_no: "objs w_dead_no_tls 0 = Some (session_plain\<lparr>status := - 1\<rparr>)"
    by (simp add: w_dead_no_tls_def world0_def)
  have live_tls: "objs w_dead_tls 0 = Some (session_tls\<lparr>status := - 1\<rparr>)"
    by (simp add: w_dead_tls_def world0_def)
  have dead: "status (session_plain\<lparr>status := - 1\<rparr>) = - 1" "status (session_tls\<lparr>status := - 1\<rparr>) = - 1"
    by simp_all
  have plain: "tls (session_plain\<lparr>status := - 1\<rparr>) = None"
    by (simp add: session_plain_def)
  have secured: "tls (session_tls\<lparr>status := - 1\<rparr>) \<noteq> None"
    by (simp add: session_tls_def)
  have fails: "\<forall>n. tls_n w_dead_no_tls \<le> n \<longrightarrow> tls_allocs w_dead_no_tls n = None"
    by (simp add: w_dead_no_tls_def world0_def)
  note a = status_error_sticky [OF live dead(1), of "[OpStatus, OpSecure, OpStatus]"]
  note b = status_error_sticky [OF live_no dead(1), of "[OpSecure, OpStatus, OpSecure]"]
  note c = status_error_sticky [OF live_tls dead(2), of "[OpSecure, OpStatus, OpSecure]"]
  have s1: "client_status (Some 0) w_dead = Inr (- 1, w_dead\<lparr>probe_n := probe_n w_dead + 1\<rparr>)"
    using a by blast
  have "client_secure (Some 0) w_dead =
      Inr (0, w_dead\<lparr>tls_n := tls_n w_dead + 1,
                objs := (objs w_dead)(0 := Some (session_plain\<lparr>status := - 1\<rparr>\<lparr>tls := Some 7, status := 1\<rparr>))\<rparr>)"
    using a plain by (simp add: w_dead_def)
  then have s2: "client_secure (Some 0) w_dead = Inr (0, w_dead_secured)"
    by (simp add: w_dead_secured_def w_dead_def world0_def)
  have "client_secure (Some 0) w_dead_no_tls = Inr (- 1, w_dead_no_tls\<lparr>tls_n := tls_n w_dead_no_tls + 1\<rparr>)"
    using b plain by (simp add: w_dead_no_tls_def world0_def)
  then have s3: "client_secure (Some 0) w_dead_no_tls = Inr (- 1, w_dead_no_tls\<lparr>tls_n := 1\<rparr>)"
    by (simp add: w_dead_no_tls_def world0_def)
  have s4: "client_secure (Some 0) w_dead_tls = Inr (0, w_dead_tls)"
    using c secured by simp
  have s5: "\<exists>w' c'. run_ops [OpStatus, OpSecure, OpStatus] (Some 0) w_dead = Inr w' \<and> objs w' 0 = Some c'
         \<and> (status c' = - 1
              \<or> (status c' = 1 \<and> tls (session_plain\<lparr>status := - 1\<rparr>) = None \<and> tls c' \<noteq> None))"
    using a by blast
  have s6: "\<exists>w'. run_ops [OpSecure, OpStatus, OpSecure] (Some 0) w_dead_no_tls = Inr w'
         \<and> objs w' 0 = Some (session_plain\<lparr>status := - 1\<rparr>)"
    using b fails by blast
  have s7: "\<exists>w'. run_ops [OpSecure, OpStatus, OpSecure] (Some 0) w_dead_tls = Inr w'
         \<and> objs w' 0 = Some (session_tls\<lparr>status := - 1\<rparr>)"
    using c secured by blast
  from s1 s2 s3 s4 s5 s6 s7 show ?thesis by blast
qed

text \<open>The status is -1, \<^verbatim>\<open>client_secure\<close> sets up TLS, and the status is 1.\<close>

theorem status_error_sticky_counterexample:
  "map_option status (objs w_dead 0) = Some (- 1)
   \<and> client_secure (Some 0) w_dead = Inr (0, w_dead_secured)
   \<and> map_option status (objs w_dead_secured 0) = Some 1"
  by (simp add: w_dead_def w_dead_secured_def world0_def session_plain_def client_secure_def)

subsection \<open>\<^verbatim>\<open>client_close\<close>\<close>

text \<open>
  C4, as the code has it. \<^verbatim>\<open>client_close\<close> on a \<^verbatim>\<open>NULL\<close> session does nothing. On
  a session it releases the TLS context if there is one, then the descriptor unless
  it is -1, then the peer address and the buffer if they are there, then the
  session itself, each once; this holds of a session without a buffer too. The
  session is then freed memory, and a second call with the same pointer reads it.
\<close>

theorem client_close_releases:
  "client_close None w = Inr w
   \<and> (objs w a = Some c \<longrightarrow>
        client_close (Some a) w =
          Inr (w\<lparr>trace := trace w
                   @ (case tls c of None \<Rightarrow> [] | Some t \<Rightarrow> [EvTlsFree t])
                   @ (if sockd c \<noteq> - 1 then [EvClose (sockd c)] else [])
                   @ (case ip c of None \<Rightarrow> [] | Some i \<Rightarrow> [EvFreeIp])
                   @ (case buffer c of None \<Rightarrow> [] | Some b \<Rightarrow> [EvFreeBuffer b])
                   @ [EvFreeClient a],
                 objs := (objs w)(a := None)\<rparr>)
        \<and> (\<forall>w'. client_close (Some a) w = Inr w' \<longrightarrow> client_close (Some a) w' = Inl UseAfterFree))"
  by (auto simp add: client_close_def)

theorem client_close_releases_witness:
  "client_close None w_open = Inr w_open
   \<and> client_close (Some 0) w_open = Inr w_closed
   \<and> client_close (Some 0) w_closed = Inl UseAfterFree
   \<and> client_close (Some 0) w_partial
       = Inr (w_partial\<lparr>trace := [EvFreeClient 0], objs := (objs w_partial)(0 := None)\<rparr>)"
proof -
  have live: "objs w_open 0 = Some (session_tls\<lparr>ip := Some peer4\<rparr>)"
    by (simp add: w_open_def world0_def)
  have part: "objs w_partial 0 = Some (session_plain\<lparr>sockd := - 1, buffer := None\<rparr>)"
    by (simp add: w_partial_def world0_def)
  note full = client_close_releases [of w_open 0 "session_tls\<lparr>ip := Some peer4\<rparr>"]
  note half = client_close_releases [of w_partial 0 "session_plain\<lparr>sockd := - 1, buffer := None\<rparr>"]
  have null: "client_close None w_open = Inr w_open"
    using full by blast
  have once: "client_close (Some 0) w_open = Inr w_closed"
  proof -
    from full live have "client_close (Some 0) w_open =
        Inr (w_open\<lparr>trace := trace w_open
               @ (case tls (session_tls\<lparr>ip := Some peer4\<rparr>) of None \<Rightarrow> [] | Some t \<Rightarrow> [EvTlsFree t])
               @ (if sockd (session_tls\<lparr>ip := Some peer4\<rparr>) \<noteq> - 1
                  then [EvClose (sockd (session_tls\<lparr>ip := Some peer4\<rparr>))] else [])
               @ (case ip (session_tls\<lparr>ip := Some peer4\<rparr>) of None \<Rightarrow> [] | Some i \<Rightarrow> [EvFreeIp])
               @ (case buffer (session_tls\<lparr>ip := Some peer4\<rparr>) of None \<Rightarrow> [] | Some b \<Rightarrow> [EvFreeBuffer b])
               @ [EvFreeClient 0],
             objs := (objs w_open)(0 := None)\<rparr>)"
      by blast
    also have "\<dots> = Inr w_closed"
      by (simp add: w_closed_def w_open_def world0_def session_tls_def session_plain_def)
    finally show ?thesis .
  qed
  have twice: "client_close (Some 0) w_closed = Inl UseAfterFree"
    using full live once by blast
  have partial: "client_close (Some 0) w_partial
       = Inr (w_partial\<lparr>trace := [EvFreeClient 0], objs := (objs w_partial)(0 := None)\<rparr>)"
  proof -
    from half part have "client_close (Some 0) w_partial =
        Inr (w_partial\<lparr>trace := trace w_partial
               @ (case tls (session_plain\<lparr>sockd := - 1, buffer := None\<rparr>) of None \<Rightarrow> [] | Some t \<Rightarrow> [EvTlsFree t])
               @ (if sockd (session_plain\<lparr>sockd := - 1, buffer := None\<rparr>) \<noteq> - 1
                  then [EvClose (sockd (session_plain\<lparr>sockd := - 1, buffer := None\<rparr>))] else [])
               @ (case ip (session_plain\<lparr>sockd := - 1, buffer := None\<rparr>) of None \<Rightarrow> [] | Some i \<Rightarrow> [EvFreeIp])
               @ (case buffer (session_plain\<lparr>sockd := - 1, buffer := None\<rparr>) of None \<Rightarrow> []
                  | Some b \<Rightarrow> [EvFreeBuffer b])
               @ [EvFreeClient 0],
             objs := (objs w_partial)(0 := None)\<rparr>)"
      by blast
    also have "\<dots> = Inr (w_partial\<lparr>trace := [EvFreeClient 0], objs := (objs w_partial)(0 := None)\<rparr>)"
      by (simp add: w_partial_def world0_def session_plain_def)
    finally show ?thesis .
  qed
  from null once twice partial show ?thesis by blast
qed

text \<open>A session is closed, and closed again.\<close>

theorem client_close_releases_counterexample:
  "client_close (Some 0) w_open = Inr w_closed
   \<and> client_close (Some 0) w_closed = Inl UseAfterFree"
  by (simp add: w_open_def w_closed_def world0_def session_tls_def session_plain_def client_close_def)

text \<open>
  The call resets no field, so where the freed session still holds what it held,
  which is what a freed block does until it is used again, the second call finds
  the same context, descriptor, address and buffer and releases each of them, and
  the session, a second time.
\<close>

lemma client_close_stale:
  "client_close (Some 0) (w_closed\<lparr>objs := objs w_open\<rparr>) =
     Inr (w_closed\<lparr>trace := [EvTlsFree 7, EvClose 5, EvFreeIp, EvFreeBuffer 1, EvFreeClient 0,
                                EvTlsFree 7, EvClose 5, EvFreeIp, EvFreeBuffer 1, EvFreeClient 0]\<rparr>)"
  by (simp add: w_open_def w_closed_def world0_def session_tls_def session_plain_def client_close_def)

text \<open>
  A session whose buffer cannot be allocated never reaches the caller:
  \<^verbatim>\<open>client_connect\<close> releases the session, the address and the socket itself, each
  once, and returns \<^verbatim>\<open>NULL\<close>, on which \<^verbatim>\<open>client_close\<close> does nothing.
\<close>

lemma connect_without_buffer:
  "client_connect ''localhost'' 25 w_no_buffer =
     (None, w_no_buffer\<lparr>trace := [EvSocket 3, EvFreeAddrInfo, EvFreeClient 0, EvFreeIp, EvClose 3]\<rparr>)
   \<and> client_close None (snd (client_connect ''localhost'' 25 w_no_buffer))
       = Inr (w_no_buffer\<lparr>trace := [EvSocket 3, EvFreeAddrInfo, EvFreeClient 0, EvFreeIp, EvClose 3]\<rparr>)"
  by (simp add: client_connect_def client_close_def w_no_buffer_def world0_def cand_ok_def
      cand_refused_def SOCK_STREAM_def AF_INET_def AF_INET6_def sizeof_sockaddr_in_def
      sizeof_sockaddr_in6_def)

text \<open>
  When the peer's address has neither shape, the \<^verbatim>\<open>ip_t\<close> allocated for it is
  freed at once and the session is handed out without a peer address.
\<close>

lemma connect_odd_peer:
  "client_connect ''localhost'' 25 w_odd_peer =
     (Some 0,
      w_odd_peer\<lparr>trace := [EvSocket 3, EvFreeIp, EvFreeAddrInfo],
                 objs := (objs w_odd_peer)(0 := Some \<lparr>sockd = 3, tls = None, ip = None, status = 1,
                                                     buffer = Some 1, line = [], behind = []\<rparr>)\<rparr>)"
  by (simp add: client_connect_def w_odd_peer_def world0_def cand_ok_def cand_refused_def
      SOCK_STREAM_def AF_INET_def AF_INET6_def sizeof_sockaddr_in_def sizeof_sockaddr_in6_def)

subsection \<open>\<^verbatim>\<open>client_connect\<close> when every address refuses\<close>

lemma connect_loop_all_refused:
  assumes "\<forall>h \<in> set cands. sock_result h \<noteq> - 1 \<and> conn_result h \<noteq> 0"
  shows "connect_loop ipok cands sd ret ipv tr =
     (LoopDone (if cands = [] then sd else sock_result (last cands))
               (if cands = [] then ret else conn_result (last cands)) ipv,
      tr @ concat (map (\<lambda>h. [EvSocket (sock_result h), EvClose (sock_result h)]) cands))"
  using assms by (induction cands arbitrary: sd ret tr) auto

text \<open>
  C5. When the host resolves, every socket is created and every candidate refuses
  the connection, \<^verbatim>\<open>client_connect\<close> returns \<^verbatim>\<open>NULL\<close> and frees the address list,
  and each socket is closed in the loop right after its \<^verbatim>\<open>connect\<close> failed. After
  the loop the code closes \<^verbatim>\<open>sd\<close>, the socket of the last candidate, once more.
\<close>

theorem client_connect_all_refused:
  assumes "gai_ret w = 0" and "gai_info w \<noteq> []"
    and "ai_socktype (hd (gai_info w)) = SOCK_STREAM"
    and "\<forall>h \<in> set (gai_info w). sock_result h \<noteq> - 1 \<and> conn_result h \<noteq> 0"
  shows "client_connect host port w =
     (None, w\<lparr>trace := trace w
                 @ concat (map (\<lambda>h. [EvSocket (sock_result h), EvClose (sock_result h)]) (gai_info w))
                 @ [EvFreeAddrInfo, EvClose (sock_result (last (gai_info w)))]\<rparr>)"
proof -
  have "conn_result (last (gai_info w)) \<noteq> 0"
    using assms(2,4) by simp
  then show ?thesis
    using assms(1-3) by (simp add: client_connect_def connect_loop_all_refused [OF assms(4)])
qed

theorem client_connect_all_refused_witness:
  "client_connect ''localhost'' 25 w_refused =
     (None, w_refused\<lparr>trace := [EvSocket 3, EvClose 3, EvFreeAddrInfo, EvClose 3]\<rparr>)"
  using client_connect_all_refused [of w_refused "''localhost''" 25]
  by (simp add: w_refused_def world0_def cand_refused_def SOCK_STREAM_def)

section \<open>The exchange driver: properties\<close>

lemmas prog_defs = bind_p_def return_p_def io_def or_p_def differs_def nonpos_def pos_def fails_def
  line_differs_def

lemmas driver_defs = check_smtp_network_auth_sthread_def check_smtp_client_mail_rcpt_data_def
  check_smtp_client_auth_plain_def check_smtp_client_auth_login_def check_smtp_client_quit_def
  close_false_def

lemmas env_defs = client_write_def client_print_def client_read_line_def client_status_def
  client_line_def client_close_def pl_char_get_at_def st_sprint_def st_empty_def
  st_cmp_cs_starts_def client_connect_def

subsection \<open>The loop of \<^verbatim>\<open>check_smtp_client_read_end\<close>\<close>

lemma read_line_reads_done:
  assumes "objs w a = Some c"
  shows "client_read_line (Some a) (reads_done a k w) = Inr (rd_ret (nth_read w k), reads_done a (Suc k) w)"
  using assms by (cases k) (simp_all add: client_read_line_def reads_done_def nth_read_def Let_def)

lemma byte3_reads_done:
  assumes "objs w a = Some c"
  shows "pl_char_get_at (Some a) 3 (reads_done a (Suc k) w) =
     (if in_buffer (nth_read w k) then Inr (tested_byte (nth_read w k)) else Inl OutOfBuffer)"
  using assms by (simp add: pl_char_get_at_def reads_done_def in_buffer_def tested_byte_def)

text \<open>One turn of the loop, after \<open>k\<close> reads.\<close>

lemma read_end_step:
  assumes "objs w a = Some c"
  shows "check_smtp_client_read_end (Some a) (reads_done a k w) =
     (if 0 < rd_ret (nth_read w k) then
        (if in_buffer (nth_read w k) then
           (if tested_byte (nth_read w k) = CHR '' '' then Some (Inr (True, reads_done a (Suc k) w))
            else check_smtp_client_read_end (Some a) (reads_done a (Suc k) w))
         else Some (Inl OutOfBuffer))
      else Some (Inr (False, reads_done a (Suc k) w)))"
  by (subst check_smtp_client_read_end.simps)
     (simp add: read_line_reads_done [OF assms] byte3_reads_done [OF assms])

lemma read_end_skip:
  assumes "objs w a = Some c" and "\<forall>i<k. continues (nth_read w i)"
  shows "check_smtp_client_read_end (Some a) w = check_smtp_client_read_end (Some a) (reads_done a k w)"
  using assms(2)
proof (induction k)
  case 0
  show ?case by (simp add: reads_done_def)
next
  case (Suc k)
  then have "continues (nth_read w k)" and "\<forall>i<k. continues (nth_read w i)" by simp_all
  then show ?case
    using Suc.IH read_end_step [OF assms(1), of k] by (simp add: continues_def)
qed

text \<open>The loop ends at the first read that does not make it go on.\<close>

lemma read_end_stop:
  assumes "objs w a = Some c" and "\<forall>i<k. continues (nth_read w i)" and "\<not> continues (nth_read w k)"
  shows "check_smtp_client_read_end (Some a) w =
     Some (if rd_ret (nth_read w k) \<le> 0 then Inr (False, reads_done a (Suc k) w)
           else if \<not> in_buffer (nth_read w k) then Inl OutOfBuffer
           else Inr (True, reads_done a (Suc k) w))"
  using read_end_skip [OF assms(1,2)] read_end_step [OF assms(1), of k] assms(3)
  by (auto simp add: continues_def)

text \<open>When the loop returns, some read did not make it go on.\<close>

lemma read_end_returns_stop:
  assumes "check_smtp_client_read_end client w = Some y"
  shows "\<forall>a c. client = Some a \<and> objs w a = Some c \<longrightarrow> (\<exists>k. \<not> continues (nth_read w k))"
proof (rule check_smtp_client_read_end.raw_induct
    [where P = "\<lambda>client w y. \<forall>a c. client = Some a \<and> objs w a = Some c
                  \<longrightarrow> (\<exists>k. \<not> continues (nth_read w k))", OF _ assms])
  fix rec :: "nat option \<Rightarrow> bool prog" and client w y
  assume ih: "\<And>client w y. rec client w = Some y \<Longrightarrow>
      \<forall>a c. client = Some a \<and> objs w a = Some c \<longrightarrow> (\<exists>k. \<not> continues (nth_read w k))"
  assume eq: "(case client_read_line client w of
         Inl f \<Rightarrow> Some (Inl f)
       | Inr (n, w1) \<Rightarrow>
           if 0 < n then
             (case pl_char_get_at client 3 w1 of
                Inl f \<Rightarrow> Some (Inl f)
              | Inr ch \<Rightarrow> if ch = CHR '' '' then Some (Inr (True, w1)) else rec client w1)
           else Some (Inr (False, w1))) = Some y"
  show "\<forall>a c. client = Some a \<and> objs w a = Some c \<longrightarrow> (\<exists>k. \<not> continues (nth_read w k))"
  proof (intro allI impI)
    fix a c
    assume live: "client = Some a \<and> objs w a = Some c"
    show "\<exists>k. \<not> continues (nth_read w k)"
    proof (cases "continues (nth_read w 0)")
      case False
      then show ?thesis by blast
    next
      case True
      define w1 where "w1 = reads_done a (Suc 0) w"
      have rd: "client_read_line client w = Inr (rd_ret (nth_read w 0), w1)"
        using read_line_reads_done [of w a c 0] live by (simp add: w1_def reads_done_def)
      have b3: "pl_char_get_at client 3 w1 = Inr (tested_byte (nth_read w 0))"
        using byte3_reads_done [of w a c 0] live True by (simp add: w1_def continues_def)
      from eq rd b3 True have "rec client w1 = Some y"
        by (simp add: continues_def)
      from ih [OF this]
      have stop: "\<forall>a c. client = Some a \<and> objs w1 a = Some c \<longrightarrow> (\<exists>k. \<not> continues (nth_read w1 k))" .
      obtain c1 where "objs w1 a = Some c1"
        using live by (simp add: w1_def reads_done_def)
      with stop live obtain k where "\<not> continues (nth_read w1 k)"
        by blast
      moreover have "nth_read w1 k = nth_read w (Suc k)"
        by (simp add: w1_def reads_done_def nth_read_def)
      ultimately show ?thesis by auto
    qed
  qed
qed

lemma read_end_first_stop:
  assumes "check_smtp_client_read_end (Some a) w = Some y" and "objs w a = Some c"
  shows "\<exists>k. (\<forall>i<k. continues (nth_read w i)) \<and> \<not> continues (nth_read w k)"
proof -
  from read_end_returns_stop [OF assms(1)] assms(2)
  obtain k where "\<not> continues (nth_read w k)" by blast
  then have "\<exists>k. \<not> continues (nth_read w k) \<and> (\<forall>i<k. \<not> \<not> continues (nth_read w i))"
    using exists_least_iff [of "\<lambda>k. \<not> continues (nth_read w k)"] by blast
  then show ?thesis by auto
qed

text \<open>A server that sends continuation lines for ever: the loop does not return.\<close>

lemma read_end_diverges:
  assumes "objs w a = Some c" and "\<forall>i. continues (nth_read w i)"
  shows "check_smtp_client_read_end (Some a) w = None"
proof (cases "check_smtp_client_read_end (Some a) w")
  case None
  then show ?thesis .
next
  case (Some y)
  from read_end_returns_stop [OF this] assms show ?thesis by blast
qed

text \<open>The loop's value in all cases: true exactly at a first stop that \<open>ends\<close>.\<close>

lemma read_end_true_iff:
  assumes "objs w a = Some c"
  shows "(\<exists>w'. check_smtp_client_read_end (Some a) w = Some (Inr (True, w')))
     \<longleftrightarrow> (\<exists>k. (\<forall>i<k. continues (nth_read w i)) \<and> ends (nth_read w k))"
proof
  assume "\<exists>w'. check_smtp_client_read_end (Some a) w = Some (Inr (True, w'))"
  then obtain w' where ret: "check_smtp_client_read_end (Some a) w = Some (Inr (True, w'))" ..
  from read_end_first_stop [OF ret assms] obtain j where
    j: "\<forall>i<j. continues (nth_read w i)" "\<not> continues (nth_read w j)" by blast
  from read_end_stop [OF assms j] ret
  have "0 < rd_ret (nth_read w j) \<and> in_buffer (nth_read w j)"
    by (auto split: if_splits)
  with j show "\<exists>k. (\<forall>i<k. continues (nth_read w i)) \<and> ends (nth_read w k)"
    by (auto simp add: continues_def ends_def)
next
  assume "\<exists>k. (\<forall>i<k. continues (nth_read w i)) \<and> ends (nth_read w k)"
  then obtain j where j: "\<forall>i<j. continues (nth_read w i)" "ends (nth_read w j)" by blast
  then have "\<not> continues (nth_read w j)" by (simp add: continues_def ends_def)
  from read_end_stop [OF assms j(1) this] j(2)
  show "\<exists>w'. check_smtp_client_read_end (Some a) w = Some (Inr (True, w'))"
    by (simp add: ends_def)
qed

lemma read_end_true:
  assumes "objs w a = Some c" and "\<forall>i<k. continues (nth_read w i)" and "ends (nth_read w k)"
  shows "check_smtp_client_read_end (Some a) w = Some (Inr (True, reads_done a (Suc k) w))"
proof -
  from assms(3) have "\<not> continues (nth_read w k)" by (simp add: continues_def ends_def)
  from read_end_stop [OF assms(1,2) this] assms(3) show ?thesis by (simp add: ends_def)
qed

lemma read_end_false:
  assumes "objs w a = Some c" and "\<forall>i<k. continues (nth_read w i)" and "rd_ret (nth_read w k) \<le> 0"
  shows "check_smtp_client_read_end (Some a) w = Some (Inr (False, reads_done a (Suc k) w))"
proof -
  from assms(3) have "\<not> continues (nth_read w k)" by (simp add: continues_def)
  from read_end_stop [OF assms(1,2) this] assms(3) show ?thesis by simp
qed

text \<open>In a line of at least four bytes the tested byte is the line's fourth byte.\<close>

lemma tested_byte_in_line:
  assumes "4 \<le> length (rd_line r)"
  shows "in_buffer r" and "tested_byte r = rd_line r ! 3"
  using assms by (simp_all add: in_buffer_def tested_byte_def nth_append)

lemma long_lines:
  assumes "\<forall>i. 0 < rd_ret (nth_read w i) \<longrightarrow> 4 \<le> length (rd_line (nth_read w i))"
  shows "continues (nth_read w i) \<longleftrightarrow> 0 < rd_ret (nth_read w i) \<and> rd_line (nth_read w i) ! 3 \<noteq> CHR '' ''"
    and "ends (nth_read w i) \<longleftrightarrow> 0 < rd_ret (nth_read w i) \<and> rd_line (nth_read w i) ! 3 = CHR '' ''"
  using assms tested_byte_in_line [of "nth_read w i"]
  by (auto simp add: continues_def ends_def)

text \<open>
  C1, as the code has it. The byte tested after a read is the one at offset 3 from
  the start of the line: the line's fourth byte when the line has at least four
  bytes, a byte of the buffer behind the line otherwise. On a session,
  \<^verbatim>\<open>check_smtp_client_read_end\<close> returns true exactly when the reads deliver, each
  with a positive result, lines whose tested byte is not a space and then a line
  whose tested byte is a space, and the session is left at that line; when a read
  returns a non-positive result after only such lines, it returns false. Where
  every line read has at least four bytes this is the property as first stated:
  true exactly when a line is read whose fourth byte is a space, false when a read
  fails before that.
\<close>

theorem read_end_correct:
  assumes "objs w a = Some c"
  shows "((\<exists>w'. check_smtp_client_read_end (Some a) w = Some (Inr (True, w')))
            \<longleftrightarrow> (\<exists>k. (\<forall>i<k. continues (nth_read w i)) \<and> ends (nth_read w k)))
    \<and> ((\<forall>i<k. continues (nth_read w i)) \<and> ends (nth_read w k)
        \<longrightarrow> check_smtp_client_read_end (Some a) w = Some (Inr (True, reads_done a (Suc k) w)))
    \<and> ((\<forall>i<k. continues (nth_read w i)) \<and> rd_ret (nth_read w k) \<le> 0
        \<longrightarrow> check_smtp_client_read_end (Some a) w = Some (Inr (False, reads_done a (Suc k) w)))
    \<and> ((\<forall>i. 0 < rd_ret (nth_read w i) \<longrightarrow> 4 \<le> length (rd_line (nth_read w i)))
        \<longrightarrow> ((\<exists>w'. check_smtp_client_read_end (Some a) w = Some (Inr (True, w')))
               \<longleftrightarrow> (\<exists>k. (\<forall>i<k. 0 < rd_ret (nth_read w i) \<and> rd_line (nth_read w i) ! 3 \<noteq> CHR '' '')
                       \<and> 0 < rd_ret (nth_read w k) \<and> rd_line (nth_read w k) ! 3 = CHR '' ''))
          \<and> ((\<exists>k. (\<forall>i<k. 0 < rd_ret (nth_read w i) \<and> rd_line (nth_read w i) ! 3 \<noteq> CHR '' '')
                    \<and> rd_ret (nth_read w k) \<le> 0)
               \<longrightarrow> (\<exists>w'. check_smtp_client_read_end (Some a) w = Some (Inr (False, w')))))"
proof (intro conjI impI)
  show "(\<exists>w'. check_smtp_client_read_end (Some a) w = Some (Inr (True, w')))
      \<longleftrightarrow> (\<exists>k. (\<forall>i<k. continues (nth_read w i)) \<and> ends (nth_read w k))"
    by (rule read_end_true_iff [OF assms])
next
  assume "(\<forall>i<k. continues (nth_read w i)) \<and> ends (nth_read w k)"
  then show "check_smtp_client_read_end (Some a) w = Some (Inr (True, reads_done a (Suc k) w))"
    using read_end_true [OF assms] by blast
next
  assume "(\<forall>i<k. continues (nth_read w i)) \<and> rd_ret (nth_read w k) \<le> 0"
  then show "check_smtp_client_read_end (Some a) w = Some (Inr (False, reads_done a (Suc k) w))"
    using read_end_false [OF assms] by blast
next
  assume len: "\<forall>i. 0 < rd_ret (nth_read w i) \<longrightarrow> 4 \<le> length (rd_line (nth_read w i))"
  show "(\<exists>w'. check_smtp_client_read_end (Some a) w = Some (Inr (True, w')))
      \<longleftrightarrow> (\<exists>k. (\<forall>i<k. 0 < rd_ret (nth_read w i) \<and> rd_line (nth_read w i) ! 3 \<noteq> CHR '' '')
              \<and> 0 < rd_ret (nth_read w k) \<and> rd_line (nth_read w k) ! 3 = CHR '' '')"
    unfolding read_end_true_iff [OF assms] long_lines [OF len] by blast
next
  assume len: "\<forall>i. 0 < rd_ret (nth_read w i) \<longrightarrow> 4 \<le> length (rd_line (nth_read w i))"
    and "\<exists>k. (\<forall>i<k. 0 < rd_ret (nth_read w i) \<and> rd_line (nth_read w i) ! 3 \<noteq> CHR '' '')
           \<and> rd_ret (nth_read w k) \<le> 0"
  then obtain j where "\<forall>i<j. continues (nth_read w i)" and "rd_ret (nth_read w j) \<le> 0"
    unfolding long_lines [OF len] by blast
  from read_end_false [OF assms this]
  show "\<exists>w'. check_smtp_client_read_end (Some a) w = Some (Inr (False, w'))" by blast
qed

lemma live_sessions:
  "objs w_multi 0 = Some session_plain"
  "objs w_cont_fail 0 = Some session_plain"
  "objs w_short 0 = Some session_plain"
  "objs w_single 0 = Some session_plain"
  "objs w_space_behind 0 = Some session_plain"
  by (simp_all add: w_multi_def w_cont_fail_def w_short_def w_single_def w_space_behind_def
      w_session_def world0_def)

lemma nth_read_multi:
  "nth_read w_multi 0 = reply ''250-First''"
  "nth_read w_multi (Suc 0) = reply ''250-Second''"
  "nth_read w_multi 2 = reply ''250 Third''"
  "nth_read w_multi (Suc (Suc 0)) = reply ''250 Third''"
  by (simp_all add: nth_read_def w_multi_def w_session_def world0_def script_def)

lemma nth_read_cont_fail:
  "nth_read w_cont_fail 0 = reply ''250-First''"
  "nth_read w_cont_fail (Suc 0) = reply ''250-Second''"
  "nth_read w_cont_fail 2 = eof"
  "nth_read w_cont_fail (Suc (Suc 0)) = eof"
  by (simp_all add: nth_read_def w_cont_fail_def w_session_def world0_def script_def)

lemma nth_read_single: "nth_read w_single 0 = reply ''250 OK''"
  by (simp add: nth_read_def w_single_def w_session_def world0_def script_def)



lemmas reply_defs = reply_def reply_before_def zeros_def CRLF_def eof_def

lemma continues_reply:
  "continues (reply ''250-First'')" "continues (reply ''250-Second'')" "continues (reply [])"
  by (simp_all add: continues_def in_buffer_def tested_byte_def reply_defs)

lemma ends_reply:
  "ends (reply ''250 Third'')" "ends (reply ''250 OK'')" "ends (reply_before [] (''A B'' @ CRLF))"
  by (simp_all add: ends_def in_buffer_def tested_byte_def reply_defs)

lemma long_lines_multi:
  "\<forall>i. 0 < rd_ret (nth_read w_multi i) \<longrightarrow> 4 \<le> length (rd_line (nth_read w_multi i))"
  by (auto simp add: nth_read_def w_multi_def w_session_def world0_def script_def reply_defs
      nth_Cons' split: if_splits)

lemma long_lines_cont_fail:
  "\<forall>i. 0 < rd_ret (nth_read w_cont_fail i) \<longrightarrow> 4 \<le> length (rd_line (nth_read w_cont_fail i))"
  by (auto simp add: nth_read_def w_cont_fail_def w_session_def world0_def script_def reply_defs
      nth_Cons' split: if_splits)

text \<open>
  The replies of the spec: \<open>250-First\<close>, \<open>250-Second\<close>, \<open>250 Third\<close> ends
  after the third line and \<open>250 OK\<close> at once; two continuation lines and then a
  shutdown give false.
\<close>

theorem read_end_correct_witness:
  "check_smtp_client_read_end (Some 0) w_multi = Some (Inr (True, reads_done 0 3 w_multi))
   \<and> check_smtp_client_read_end (Some 0) w_single = Some (Inr (True, reads_done 0 1 w_single))
   \<and> check_smtp_client_read_end (Some 0) w_cont_fail = Some (Inr (False, reads_done 0 3 w_cont_fail))
   \<and> (\<exists>w'. check_smtp_client_read_end (Some 0) w_multi = Some (Inr (True, w')))
   \<and> (\<exists>w'. check_smtp_client_read_end (Some 0) w_cont_fail = Some (Inr (False, w')))"
proof -
  have c1: "\<forall>i<2. continues (nth_read w_multi i)"
    by (auto simp add: less_Suc_eq numeral_2_eq_2 nth_read_multi continues_reply)
  have c2: "\<forall>i<2. continues (nth_read w_cont_fail i)"
    by (auto simp add: less_Suc_eq numeral_2_eq_2 nth_read_cont_fail continues_reply)
  have c3: "\<forall>i<0. continues (nth_read w_single i)"
    by simp
  have e1: "ends (nth_read w_multi 2)"
    by (simp add: nth_read_multi ends_reply)
  have e2: "rd_ret (nth_read w_cont_fail 2) \<le> 0"
    by (simp add: nth_read_cont_fail eof_def)
  have e3: "ends (nth_read w_single 0)"
    by (simp add: nth_read_single ends_reply)
  have l1: "\<exists>k. (\<forall>i<k. 0 < rd_ret (nth_read w_multi i) \<and> rd_line (nth_read w_multi i) ! 3 \<noteq> CHR '' '')
      \<and> 0 < rd_ret (nth_read w_multi k) \<and> rd_line (nth_read w_multi k) ! 3 = CHR '' ''"
    by (rule exI [of _ 2])
       (auto simp add: less_Suc_eq numeral_2_eq_2 nth_read_multi reply_defs)
  have l2: "\<exists>k. (\<forall>i<k. 0 < rd_ret (nth_read w_cont_fail i) \<and> rd_line (nth_read w_cont_fail i) ! 3 \<noteq> CHR '' '')
      \<and> rd_ret (nth_read w_cont_fail k) \<le> 0"
    by (rule exI [of _ 2])
       (auto simp add: less_Suc_eq numeral_2_eq_2 nth_read_cont_fail reply_defs)
  have s: "Suc 2 = 3" "Suc 0 = 1" by simp_all
  note multi = read_end_correct [OF live_sessions(1), of 2]
  note fail = read_end_correct [OF live_sessions(2), of 2]
  note single = read_end_correct [OF live_sessions(4), of 0]
  have a: "check_smtp_client_read_end (Some 0) w_multi = Some (Inr (True, reads_done 0 3 w_multi))"
    using multi c1 e1 unfolding s by blast
  have b: "check_smtp_client_read_end (Some 0) w_single = Some (Inr (True, reads_done 0 1 w_single))"
    using single c3 e3 unfolding s by blast
  have c: "check_smtp_client_read_end (Some 0) w_cont_fail = Some (Inr (False, reads_done 0 3 w_cont_fail))"
    using fail c2 e2 unfolding s by blast
  have d: "\<exists>w'. check_smtp_client_read_end (Some 0) w_multi = Some (Inr (True, w'))"
    using multi long_lines_multi l1 by blast
  have e: "\<exists>w'. check_smtp_client_read_end (Some 0) w_cont_fail = Some (Inr (False, w'))"
    using fail long_lines_cont_fail l2 by blast
  from a b c d e show ?thesis by blast
qed

text \<open>
  The server sends an empty line and the line \<open>A B\<close> in one piece, and shuts
  down. Neither line has a space as its fourth byte (the first has two bytes, the
  fourth byte of the second is \<^verbatim>\<open>CR\<close>), and the third read returns 0. The call
  returns true at the first line: byte 3 from its start is the space of \<open>A B\<close>,
  which lies behind it in the buffer.
\<close>

theorem read_end_correct_counterexample:
  "rd_ret (nth_read w_space_behind 0) = 2 \<and> rd_line (nth_read w_space_behind 0) = CRLF
   \<and> rd_line (nth_read w_space_behind 1) = ''A B'' @ CRLF
   \<and> rd_ret (nth_read w_space_behind 2) = 0
   \<and> outcome (check_smtp_client_read_end (Some 0) w_space_behind) = Some (Inr True)"
  by (simp add: outcome_def check_smtp_client_read_end.simps client_read_line_def pl_char_get_at_def
      nth_read_def w_space_behind_def w_session_def world0_def script_def reply_defs)




subsection \<open>The QUIT step\<close>

text \<open>
  C6, as the code has it. On a session, \<^verbatim>\<open>check_smtp_client_quit\<close> returns, and
  returns true exactly when the write of the QUIT command returns 6, the read that
  follows returns a positive result and leaves a line that starts with 221,
  \<^verbatim>\<open>client_status\<close> then returns 1 (the stored status is 1 and a probe that is
  consulted returns 0), and the read after that returns a result that is not
  positive: 0 for a shutdown as well as a negative value for a failed read. Of the
  results of the last read only a positive one, more bytes, makes the step fail.
\<close>

theorem check_smtp_client_quit_result:
  assumes "objs w a = Some c"
  shows "\<exists>w'. check_smtp_client_quit (Some a) errmsg w =
      Some (Inr (wr_ret (writes w (write_n w)) = 6
                 \<and> 0 < rd_ret (nth_read w 0)
                 \<and> rd_status (nth_read w 0) = 1
                 \<and> (tls c \<noteq> None \<and> fst (probes w (probe_n w)) = 0
                      \<or> sockd c \<noteq> - 1 \<and> snd (probes w (probe_n w)) = 0)
                 \<and> st_cmp_cs_starts (rd_line (nth_read w 0)) ''221'' = 0
                 \<and> rd_ret (nth_read w 1) \<le> 0, w'))"
  using assms
  by (auto simp add: check_smtp_client_quit_def prog_defs client_write_def client_read_line_def
      client_status_def client_line_def st_sprint_def st_cmp_cs_starts_def nth_read_def Let_def
      split: option.splits)

theorem check_smtp_client_quit_result_witness:
  "\<exists>w'. check_smtp_client_quit (Some 0) None w_quit_ok = Some (Inr (True, w'))"
proof -
  have live: "objs w_quit_ok 0 = Some session_plain"
    by (simp add: w_quit_ok_def w_session_def world0_def)
  have ok: "(wr_ret (writes w_quit_ok (write_n w_quit_ok)) = 6
       \<and> 0 < rd_ret (nth_read w_quit_ok 0)
       \<and> rd_status (nth_read w_quit_ok 0) = 1
       \<and> (tls session_plain \<noteq> None \<and> fst (probes w_quit_ok (probe_n w_quit_ok)) = 0
            \<or> sockd session_plain \<noteq> - 1 \<and> snd (probes w_quit_ok (probe_n w_quit_ok)) = 0)
       \<and> st_cmp_cs_starts (rd_line (nth_read w_quit_ok 0)) ''221'' = 0
       \<and> rd_ret (nth_read w_quit_ok 1) \<le> 0) = True"
    by (simp add: w_quit_ok_def w_session_def world0_def session_plain_def script_def reply_defs
        written_def eof_def nth_read_def st_cmp_cs_starts_def CRLF_def)
  show ?thesis
    using check_smtp_client_quit_result [OF live, of None] by (simp only: ok)
qed

text \<open>The server answers 221 and the read after it fails: the step succeeds.\<close>

theorem check_smtp_client_quit_result_counterexample:
  "rd_ret (nth_read w_quit_reset 1) = - 1
   \<and> outcome (check_smtp_client_quit (Some 0) None w_quit_reset) = Some (Inr True)"
  by (simp add: outcome_def check_smtp_client_quit_def prog_defs client_write_def client_read_line_def
      client_status_def client_line_def st_sprint_def st_cmp_cs_starts_def nth_read_def Let_def
      w_quit_reset_def w_session_def world0_def session_plain_def script_def reply_defs reset_def
      written_def CRLF_def)

subsection \<open>The messages of \<^verbatim>\<open>check_smtp_network_auth_sthread\<close>\<close>

text \<open>
  No function the driver calls changes a string buffer, but \<^verbatim>\<open>st_sprint\<close> on a
  buffer; with \<^verbatim>\<open>errmsg\<close> \<^verbatim>\<open>NULL\<close> the helpers change none.
\<close>

lemma keeps_return: "keeps_strs (return_p x)"
  by (simp add: keeps_strs_def return_p_def)

lemma keeps_bind:
  assumes "keeps_strs m" and "\<And>x. keeps_strs (k x)"
  shows "keeps_strs (bind_p m k)"
  unfolding keeps_strs_def bind_p_def
proof (intro allI impI)
  fix w x w'
  assume r: "(case m w of None \<Rightarrow> None | Some (Inl f) \<Rightarrow> Some (Inl f) | Some (Inr (x, w')) \<Rightarrow> k x w')
      = Some (Inr (x, w'))"
  then obtain y w1 where m: "m w = Some (Inr (y, w1))" and k: "k y w1 = Some (Inr (x, w'))"
    by (auto split: option.splits sum.splits)
  from assms(1) m have "strs w1 = strs w" by (auto simp add: keeps_strs_def)
  moreover from assms(2) [of y] k have "strs w' = strs w1" by (auto simp add: keeps_strs_def)
  ultimately show "strs w' = strs w" by simp
qed

lemma keeps_if:
  assumes "keeps_strs m1" and "keeps_strs m2"
  shows "keeps_strs (if b then m1 else m2)"
  using assms by simp

lemma keeps_io:
  assumes "\<And>w x w'. f w = Inr (x, w') \<Longrightarrow> strs w' = strs w"
  shows "keeps_strs (io f)"
  using assms by (auto simp add: keeps_strs_def io_def)

lemma keeps_or: "keeps_strs l \<Longrightarrow> keeps_strs r \<Longrightarrow> keeps_strs (or_p l r)"
  unfolding or_p_def by (intro keeps_bind keeps_if keeps_return)

lemma keeps_differs: "keeps_strs m \<Longrightarrow> keeps_strs (differs m v)"
  unfolding differs_def by (intro keeps_bind keeps_return)

lemma keeps_nonpos: "keeps_strs m \<Longrightarrow> keeps_strs (nonpos m)"
  unfolding nonpos_def by (intro keeps_bind keeps_return)

lemma keeps_pos: "keeps_strs m \<Longrightarrow> keeps_strs (pos m)"
  unfolding pos_def by (intro keeps_bind keeps_return)

lemma keeps_fails: "keeps_strs m \<Longrightarrow> keeps_strs (fails m)"
  unfolding fails_def by (intro keeps_bind keeps_return)

lemma keeps_env:
  "keeps_strs (io (client_write client s))"
  "keeps_strs (io (client_print client s))"
  "keeps_strs (io (client_read_line client))"
  "keeps_strs (io (client_status client))"
  "keeps_strs (io (client_line client))"
  "keeps_strs (io (st_sprint None msg))"
  "keeps_strs (io (\<lambda>w. Inr (client_connect host port w)))"
  "keeps_strs (io (\<lambda>w. Inr (st_empty s' w, w)))"
  "keeps_strs (io (\<lambda>w. case client_close client w of Inl f \<Rightarrow> Inl f | Inr w' \<Rightarrow> Inr ((), w')))"
  by (rule keeps_io;
      auto simp add: client_write_def client_print_def client_read_line_def client_status_def
        client_line_def st_sprint_def client_connect_def client_close_def Let_def
        split: option.splits if_splits prod.splits loop_exit.splits sum.splits)+

lemma keeps_line_differs: "keeps_strs (line_differs client code)"
  unfolding line_differs_def by (intro keeps_bind keeps_return keeps_env)

lemma keeps_read_end_aux:
  assumes "check_smtp_client_read_end client w = Some y"
  shows "\<forall>b w'. y = Inr (b, w') \<longrightarrow> strs w' = strs w"
proof (rule check_smtp_client_read_end.raw_induct
    [where P = "\<lambda>client w y. \<forall>b w'. y = Inr (b, w') \<longrightarrow> strs w' = strs w", OF _ assms])
  fix rec :: "nat option \<Rightarrow> bool prog" and client w y
  assume ih: "\<And>client w y. rec client w = Some y \<Longrightarrow> \<forall>b w'. y = Inr (b, w') \<longrightarrow> strs w' = strs w"
  assume eq: "(case client_read_line client w of
         Inl f \<Rightarrow> Some (Inl f)
       | Inr (n, w1) \<Rightarrow>
           if 0 < n then
             (case pl_char_get_at client 3 w1 of
                Inl f \<Rightarrow> Some (Inl f)
              | Inr ch \<Rightarrow> if ch = CHR '' '' then Some (Inr (True, w1)) else rec client w1)
           else Some (Inr (False, w1))) = Some y"
  show "\<forall>b w'. y = Inr (b, w') \<longrightarrow> strs w' = strs w"
  proof (intro allI impI)
    fix b w'
    assume y: "y = Inr (b, w')"
    from eq y obtain n w1 where rd: "client_read_line client w = Inr (n, w1)"
      by (auto split: sum.splits)
    then have s1: "strs w1 = strs w"
      by (auto simp add: client_read_line_def Let_def split: option.splits)
    from eq rd y have "w' = w1 \<or> rec client w1 = Some (Inr (b, w'))"
      by (auto split: sum.splits if_splits)
    then show "strs w' = strs w"
      using s1 ih by auto
  qed
qed

lemma keeps_read_end: "keeps_strs (check_smtp_client_read_end client)"
  using keeps_read_end_aux by (auto simp add: keeps_strs_def)

lemmas keeps_rules = keeps_bind keeps_if keeps_return keeps_or keeps_differs keeps_nonpos keeps_pos
  keeps_fails keeps_env keeps_line_differs keeps_read_end

lemma keeps_mail_rcpt_data: "keeps_strs (check_smtp_client_mail_rcpt_data client from to None)"
  unfolding check_smtp_client_mail_rcpt_data_def Let_def by (intro keeps_rules)

lemma keeps_auth_plain: "keeps_strs (check_smtp_client_auth_plain client auth)"
  unfolding check_smtp_client_auth_plain_def by (intro keeps_rules)

lemma keeps_auth_login: "keeps_strs (check_smtp_client_auth_login client user pass)"
  unfolding check_smtp_client_auth_login_def by (intro keeps_rules)

lemma keeps_quit: "keeps_strs (check_smtp_client_quit client None)"
  unfolding check_smtp_client_quit_def by (intro keeps_rules)

lemma keeps_close_false: "keeps_strs (close_false client)"
  unfolding close_false_def by (intro keeps_rules)

lemma writes_keeps: "keeps_strs m \<Longrightarrow> writes_in e S m"
  by (auto simp add: keeps_strs_def writes_in_def)

lemma writes_bind:
  assumes "keeps_strs m" and "\<And>x. writes_in e S (k x)"
  shows "writes_in e S (bind_p m k)"
  unfolding writes_in_def bind_p_def
proof (intro allI impI)
  fix w x w'
  assume r: "(case m w of None \<Rightarrow> None | Some (Inl f) \<Rightarrow> Some (Inl f) | Some (Inr (x, w')) \<Rightarrow> k x w')
      = Some (Inr (x, w'))"
  then obtain y w1 where m: "m w = Some (Inr (y, w1))" and k: "k y w1 = Some (Inr (x, w'))"
    by (auto split: option.splits sum.splits)
  from assms(1) m have "strs w1 = strs w" by (auto simp add: keeps_strs_def)
  moreover from assms(2) [of y] k
  have "strs w' = strs w1 \<or> (\<exists>msg. msg \<in> S \<and> strs w' = (strs w1)(e := msg))"
    unfolding writes_in_def by blast
  ultimately show "strs w' = strs w \<or> (\<exists>msg. msg \<in> S \<and> strs w' = (strs w)(e := msg))" by simp
qed

lemma writes_if:
  assumes "writes_in e S m1" and "writes_in e S m2"
  shows "writes_in e S (if b then m1 else m2)"
  using assms by simp

lemma writes_message:
  assumes "msg \<in> S" and "keeps_strs m"
  shows "writes_in e S (bind_p (io (st_sprint (Some e) msg)) (\<lambda>u. m))"
  using assms
  by (auto simp add: writes_in_def keeps_strs_def bind_p_def io_def st_sprint_def)

lemma writes_auth_sthread:
  "writes_in e early_messages (check_smtp_network_auth_sthread (Some e) port login)"
  unfolding check_smtp_network_auth_sthread_def Let_def
  apply (rule writes_bind, rule keeps_env)
  apply (rule writes_bind, intro keeps_rules)
  apply (rule writes_if)
   apply (rule writes_message, simp add: early_messages_def, rule keeps_close_false)
  apply (rule writes_bind, intro keeps_rules)
  apply (rule writes_if)
   apply (rule writes_message, simp add: early_messages_def, rule keeps_close_false)
  apply (rule writes_bind, intro keeps_rules keeps_auth_login keeps_auth_plain)
  apply (rule writes_if)
   apply (rule writes_message, simp add: early_messages_def, rule keeps_close_false)
  apply (rule writes_bind, intro keeps_rules keeps_auth_login keeps_auth_plain)
  apply (rule writes_if)
   apply (rule writes_message, simp add: early_messages_def, rule keeps_close_false)
  apply (rule writes_keeps)
  apply (simp only: if_True refl)
  apply (intro keeps_rules keeps_mail_rcpt_data keeps_quit keeps_close_false)
  done

text \<open>
  Whatever the server does, when \<^verbatim>\<open>check_smtp_network_auth_sthread\<close> returns, the
  caller's buffer holds what it held before or one of the messages of the first
  four branches: no failure from line 254 on leaves a message in it.
\<close>

lemma auth_sthread_messages:
  assumes "check_smtp_network_auth_sthread (Some e) port login w = Some (Inr (b, w'))"
  shows "strs w' e = strs w e \<or> strs w' e \<in> early_messages"
  using writes_auth_sthread [of e port login] assms
  unfolding writes_in_def by fastforce

text \<open>Against a server that answers every step as expected the scenario succeeds.\<close>

lemma auth_sthread_conformant:
  "outcome (check_smtp_network_auth_sthread (Some 9) 25 False w_conformant) = Some (Inr True)
   \<and> message_left 9 (check_smtp_network_auth_sthread (Some 9) 25 False w_conformant) = Some (Inr [])"
  by (simp add: outcome_def message_left_def driver_defs prog_defs env_defs
      check_smtp_client_read_end.simps Let_def
      w_conformant_def world0_def script_def reply_defs written_def eof_def CRLF_def cand_ok_def
      cand_refused_def SOCK_STREAM_def AF_INET_def AF_INET6_def sizeof_sockaddr_in_def
      sizeof_sockaddr_in6_def)

text \<open>
  C8. The server accepts mail from the account that did not authenticate, so the
  step of line 255 fails. The run returns false, and the buffer the caller gave for
  the message, empty before the call, is empty after it: the message is printed to
  \<^verbatim>\<open>errmsg\<close> after \<^verbatim>\<open>(errmsg = NULL)\<close> has made it \<^verbatim>\<open>NULL\<close>.
\<close>

theorem auth_sthread_no_message:
  "strs w_open_relay 9 = []
   \<and> outcome (check_smtp_network_auth_sthread (Some 9) 25 False w_open_relay) = Some (Inr False)
   \<and> message_left 9 (check_smtp_network_auth_sthread (Some 9) 25 False w_open_relay) = Some (Inr [])"
  by (simp add: outcome_def message_left_def driver_defs prog_defs env_defs
      check_smtp_client_read_end.simps Let_def
      w_open_relay_def world0_def script_def reply_defs written_def eof_def CRLF_def cand_ok_def
      cand_refused_def SOCK_STREAM_def AF_INET_def AF_INET6_def sizeof_sockaddr_in_def
      sizeof_sockaddr_in6_def)

end
